theory Spec2Isabelle
  imports Main "HOL-Library.Sublist"
begin

section \<open>Text as the program sees it\<close>

text \<open>
  A Python \<open>str\<close> is a sequence of code points and \<open>len\<close> counts code points. The model
  uses \<open>string\<close>, one \<open>char\<close> per code point, which covers the code points below 256.
  On that range \<open>str.lower\<close>, \<open>str.strip\<close>, \<open>\s\<close> and \<open>\d\<close> act character by character
  and are given below by the tables of the characters concerned.
\<close>

definition space_chars :: "char list" where
  \<comment> \<open>the code points below 256 on which \<open>str.isspace\<close> holds: TAB..CR, FS..US, SPACE,
      NEL, NBSP. They are also the class \<open>\s\<close>.\<close>
  "space_chars = [CHR 0x09, CHR 0x0A, CHR 0x0B, CHR 0x0C, CHR 0x0D, CHR 0x1C, CHR 0x1D,
     CHR 0x1E, CHR 0x1F, CHR 0x20, CHR 0x85, CHR 0xA0]"

definition isspace :: "char \<Rightarrow> bool" where
  "isspace c = (c \<in> set space_chars)"

definition isdigit :: "char \<Rightarrow> bool" where
  \<comment> \<open>the class \<open>\d\<close> below 256: the ten ASCII digits.\<close>
  "isdigit c = (c \<in> set ''0123456789'')"

definition upper_chars :: "char list" where
  \<comment> \<open>A..Z and the Latin-1 capitals, 0xC0..0xDE without the multiplication sign 0xD7\<close>
  "upper_chars = ''ABCDEFGHIJKLMNOPQRSTUVWXYZ'' @
      [CHR 0xC0, CHR 0xC1, CHR 0xC2, CHR 0xC3, CHR 0xC4, CHR 0xC5, CHR 0xC6, CHR 0xC7,
       CHR 0xC8, CHR 0xC9, CHR 0xCA, CHR 0xCB, CHR 0xCC, CHR 0xCD, CHR 0xCE, CHR 0xCF,
       CHR 0xD0, CHR 0xD1, CHR 0xD2, CHR 0xD3, CHR 0xD4, CHR 0xD5, CHR 0xD6, CHR 0xD8,
       CHR 0xD9, CHR 0xDA, CHR 0xDB, CHR 0xDC, CHR 0xDD, CHR 0xDE]"

definition lower_chars :: "char list" where
  \<comment> \<open>their lower-case forms, each 32 code points higher\<close>
  "lower_chars = ''abcdefghijklmnopqrstuvwxyz'' @
      [CHR 0xE0, CHR 0xE1, CHR 0xE2, CHR 0xE3, CHR 0xE4, CHR 0xE5, CHR 0xE6, CHR 0xE7,
       CHR 0xE8, CHR 0xE9, CHR 0xEA, CHR 0xEB, CHR 0xEC, CHR 0xED, CHR 0xEE, CHR 0xEF,
       CHR 0xF0, CHR 0xF1, CHR 0xF2, CHR 0xF3, CHR 0xF4, CHR 0xF5, CHR 0xF6, CHR 0xF8,
       CHR 0xF9, CHR 0xFA, CHR 0xFB, CHR 0xFC, CHR 0xFD, CHR 0xFE]"

definition lower_char :: "char \<Rightarrow> char" where
  "lower_char c = (case map_of (zip upper_chars lower_chars) c of Some d \<Rightarrow> d | None \<Rightarrow> c)"

definition lower :: "string \<Rightarrow> string" where
  "lower s = map lower_char s"

definition strip :: "string \<Rightarrow> string" where
  "strip s = rev (dropWhile isspace (rev (dropWhile isspace s)))"

fun contains :: "string \<Rightarrow> string \<Rightarrow> bool" where
  \<comment> \<open>\<open>contains sub s\<close> is Python's \<open>sub in s\<close> on strings.\<close>
  "contains sub [] = (sub = [])"
| "contains sub (c # cs) = (prefix sub (c # cs) \<or> contains sub cs)"

definition re_search_digits :: "string \<Rightarrow> bool" where
  \<comment> \<open>\<open>re.search(r'\d+', s)\<close> finds a match exactly when some character is a digit.\<close>
  "re_search_digits s = list_ex isdigit s"

section \<open>Sentence segmentation\<close>

definition is_terminator :: "char \<Rightarrow> bool" where
  \<comment> \<open>the character class \<open>[.!?]\<close>\<close>
  "is_terminator c = (c = CHR ''.'' \<or> c = CHR ''!'' \<or> c = CHR ''?'')"

function re_split_acc :: "string \<Rightarrow> string \<Rightarrow> string list" where
  \<comment> \<open>\<open>re.split(r'[.!?]+', text)\<close>: the pieces between maximal runs of terminators,
      empty leading and trailing pieces included. The first argument is the piece being read.\<close>
  "re_split_acc cur [] = [cur]"
| "re_split_acc cur (c # cs) =
     (if is_terminator c then cur # re_split_acc [] (dropWhile is_terminator cs)
      else re_split_acc (cur @ [c]) cs)"
  by pat_completeness auto
termination
  by (relation "measure (\<lambda>(cur, s). length s)")
     (auto simp: less_Suc_eq_le length_dropWhile_le)

definition re_split :: "string \<Rightarrow> string list" where
  "re_split text = re_split_acc [] text"

definition split_into_sentences :: "string \<Rightarrow> string list" where
  \<comment> \<open>conversational_ai.py: fragments of more than 10 characters are kept.\<close>
  "split_into_sentences text = filter (\<lambda>s. 10 < length s) (map strip (re_split text))"

definition split_sentences :: "string \<Rightarrow> string list" where
  \<comment> \<open>simple_ai_chat.py: fragments of more than 15 characters are kept.\<close>
  "split_sentences text = filter (\<lambda>s. 15 < length s) (map strip (re_split text))"

section \<open>Sentence scoring and selection (conversational\_ai.py)\<close>

definition score_keywords :: "string list" where
  "score_keywords = [''important'', ''key'', ''main'', ''primary'', ''significant'', ''crucial'',
     ''essential'', ''major'', ''conclusion'', ''result'', ''therefore'', ''however'',
     ''because'']"

definition count_keywords :: "string list \<Rightarrow> string \<Rightarrow> int \<Rightarrow> int" where
  \<comment> \<open>the loop \<open>for keyword in kws: if keyword.lower() in sentence.lower(): score += 1\<close>\<close>
  "count_keywords kws sentence score =
     fold (\<lambda>keyword sc. if contains (lower keyword) (lower sentence) then sc + 1 else sc)
       kws score"

definition sentence_score :: "nat \<Rightarrow> nat \<Rightarrow> string \<Rightarrow> int" where
  \<comment> \<open>The body of the scoring loop for the sentence at index \<open>i\<close> of \<open>n\<close> sentences.
      The test \<open>i < len(sentences) * 0.3\<close> is the exact comparison \<open>10 * i < 3 * n\<close>:
      the floating-point product lies within a rounding error of \<open>3 * n / 10\<close> and is
      that integer itself when \<open>n\<close> is a multiple of 10.\<close>
  "sentence_score n i sentence =
     (let score = 0;
          score = (if i = 0 then score + 3
                   else if i + 1 = n then score + 2
                   else if 10 * i < 3 * n then score + 1
                   else score);
          score = (if 50 < length sentence \<and> length sentence < 200 then score + 2
                   else if 20 < length sentence \<and> length sentence < 300 then score + 1
                   else score);
          score = count_keywords score_keywords sentence score;
          score = (if re_search_digits sentence then score + 1 else score)
      in score)"

definition score_sentences :: "string list \<Rightarrow> (string \<times> int) list" where
  "score_sentences sentences =
     map (\<lambda>(i, sentence). (sentence, sentence_score (length sentences) i sentence))
       (enumerate 0 sentences)"

definition sort_by_score :: "(string \<times> int) list \<Rightarrow> (string \<times> int) list" where
  \<comment> \<open>\<open>list.sort(key=lambda x: x[1], reverse=True)\<close>: descending by score, and stable
      (equal scores keep their order), as Python's sort is also with \<open>reverse=True\<close>.\<close>
  "sort_by_score scored = sort_key (\<lambda>x. - snd x) scored"

definition keep_count :: "nat \<Rightarrow> nat" where
  "keep_count num_sentences =
     (if num_sentences \<le> 5 then 2
      else if num_sentences \<le> 10 then 3
      else max 3 (num_sentences div 3))"

definition extract_key_sentences :: "string list \<Rightarrow> string \<Rightarrow> string list" where
  "extract_key_sentences sentences full_text =
     (let scored_sentences = sort_by_score (score_sentences sentences)
      in map fst (take (keep_count (length sentences)) scored_sentences))"

section \<open>Sentence scoring and selection (simple\_ai\_chat.py)\<close>

definition important_words :: "string list" where
  "important_words = [''important'', ''key'', ''main'', ''primary'', ''essential'',
     ''crucial'', ''therefore'', ''however'', ''because'', ''result'', ''conclusion'']"

definition simple_sentence_score :: "nat \<Rightarrow> nat \<Rightarrow> string \<Rightarrow> int" where
  "simple_sentence_score n i sentence =
     (let score = 0;
          score = (if i = 0 then score + 3
                   else if i + 1 = n then score + 2
                   else score);
          score = (if 30 \<le> length sentence \<and> length sentence \<le> 150 then score + 2
                   else score);
          score = count_keywords important_words sentence score;
          score = (if re_search_digits sentence then score + 1 else score)
      in score)"

definition simple_score_sentences :: "string list \<Rightarrow> (string \<times> int) list" where
  "simple_score_sentences sentences =
     map (\<lambda>(i, sentence). (sentence, simple_sentence_score (length sentences) i sentence))
       (enumerate 0 sentences)"

definition select_key_sentences :: "string list \<Rightarrow> string list" where
  "select_key_sentences sentences =
     (if length sentences \<le> 3 then sentences
      else let scored = sort_by_score (simple_score_sentences sentences);
               num_to_take = min 3 (max 2 (length sentences div 3))
           in map fst (take num_to_take scored))"

section \<open>Building text\<close>

definition newline :: char where
  "newline = CHR 0x0A"

definition bullet :: char where
  \<comment> \<open>The bullet sign U+2022 of the program's messages. It lies beyond the 8-bit range and
      is represented by one character, as \<open>len\<close> counts it once.\<close>
  "bullet = CHR 0x95"

fun join :: "string \<Rightarrow> string list \<Rightarrow> string" where
  \<comment> \<open>\<open>sep.join(parts)\<close>\<close>
  "join sep [] = []"
| "join sep [x] = x"
| "join sep (x # y # ys) = x @ sep @ join sep (y # ys)"

function show_nat :: "nat \<Rightarrow> string" where
  \<comment> \<open>the decimal digits of a non-negative integer, as an f-string prints it\<close>
  "show_nat n = (if n < 10 then [''0123456789'' ! n]
                 else show_nat (n div 10) @ [''0123456789'' ! (n mod 10)])"
  by pat_completeness auto
termination
  by (relation "measure id") auto

declare show_nat.simps [simp del]

definition ends_sentence :: "string \<Rightarrow> bool" where
  \<comment> \<open>\<open>sentence.endswith(('.', '!', '?'))\<close>\<close>
  "ends_sentence sentence = (sentence \<noteq> [] \<and> is_terminator (last sentence))"

section \<open>Summaries (conversational\_ai.py)\<close>

definition create_summary :: "string list \<Rightarrow> string \<Rightarrow> string" where
  "create_summary key_sentences original_text =
     (if key_sentences = [] then
        ''Unable to generate summary - please provide more substantial text.''
      else
        let summary_parts = (if 1 < length key_sentences then [''**Key Points:**''] else []);
            summary_parts = summary_parts @
              map (\<lambda>sentence.
                     let sentence = strip sentence;
                         sentence = (if \<not> ends_sentence sentence then sentence @ ''.''
                                     else sentence)
                     in if 1 < length key_sentences then bullet # '' '' @ sentence
                        else sentence)
                key_sentences;
            summary_parts =
              (if 1000 < length original_text then
                 summary_parts @
                   [[newline] @ ''*This summary condensed '' @ show_nat (length original_text)
                      @ '' characters into '' @ show_nat (length (join '' '' summary_parts))
                      @ '' characters.*'']
               else summary_parts)
        in join [newline] summary_parts)"

definition summarize_text :: "string \<Rightarrow> string" where
  "summarize_text text0 =
     (let text = strip text0 in
      if length text < 200 then
        ''This text is already quite brief. Here it is:'' @ [newline, newline] @ text
      else
        let sentences = split_into_sentences text in
        if length sentences \<le> 3 then
          ''This text is already concise:'' @ [newline, newline] @ text
        else
          let key_sentences = extract_key_sentences sentences text
          in create_summary key_sentences text)"

section \<open>Summaries (simple\_ai\_chat.py)\<close>

definition simple_create_summary :: "string \<Rightarrow> string" where
  \<comment> \<open>\<open>create_summary\<close> of simple\_ai\_chat.py\<close>
  "simple_create_summary text0 =
     (let text = strip text0 in
      if length text < 100 then
        ''This text is already brief:'' @ [newline, newline] @ text
      else
        let sentences = split_sentences text in
        if length sentences \<le> 2 then
          ''This text is already concise:'' @ [newline, newline] @ text
        else
          let key_sentences = select_key_sentences sentences in
          if length key_sentences = 1 then hd key_sentences
          else
            let summary = ''**Key Points:**'' @ [newline] @
                  concat (map (\<lambda>(i, sentence).
                                 show_nat i @ ''. '' @ strip sentence @ [newline])
                            (enumerate 1 key_sentences))
            in strip summary)"

section \<open>Web snippets (simple\_ai\_chat.py)\<close>

text \<open>
  The parsed page is a parameter: \<open>soup selector\<close> is the list of \<open>get_text()\<close> of the
  elements that \<open>soup.select(selector)\<close> returns, in document order.
\<close>

definition result_selectors :: "string list" where
  "result_selectors = [''div.BVG0Nb'', ''div.VwiC3b'', ''span.aCOpRe'', ''div.s3v9rd'',
     ''div.IsZvec'']"

definition unwanted_content :: "string list" where
  "unwanted_content = [''sign in'', ''cookies'', ''privacy'', ''javascript'',
     ''advertisement'']"

definition collect_snippets :: "(string \<Rightarrow> string list) \<Rightarrow> string list" where
  \<comment> \<open>the two nested loops that fill \<open>snippets\<close>\<close>
  "collect_snippets soup =
     concat (map (\<lambda>selector.
        filter (\<lambda>text. text \<noteq> [] \<and> 30 < length text \<and> length text < 300
                  \<and> \<not> list_ex (\<lambda>skip. contains skip (lower text)) unwanted_content)
          (map strip (take 5 (soup selector))))
       result_selectors)"

fun unique_snippets :: "string list \<Rightarrow> string list \<Rightarrow> string list" where
  \<comment> \<open>The loop over \<open>snippets\<close> that fills \<open>unique_snippets\<close>; the first argument is the
      list built so far.\<close>
  "unique_snippets unique [] = unique"
| "unique_snippets unique (snippet # snippets) =
     (if \<not> list_ex (\<lambda>existing. contains (lower snippet) (lower existing)) unique
      then unique_snippets (unique @ [snippet]) snippets
      else unique_snippets unique snippets)"

definition extract_search_snippets :: "(string \<Rightarrow> string list) \<Rightarrow> string option" where
  "extract_search_snippets soup =
     (let snippets = collect_snippets soup in
      if snippets \<noteq> [] then
        let unique = unique_snippets [] snippets in
        if unique \<noteq> [] then
          let result = ''**Key Information Found:**'' @ [newline] @
                concat (map (\<lambda>(i, snippet). show_nat i @ ''. '' @ snippet @ [newline])
                          (enumerate 1 (take 3 unique)))
          in Some (strip result)
        else None
      else None)"

section \<open>Exceptions\<close>

text \<open>
  A computation that may raise is a value of \<open>exn + 'a\<close>: \<open>Inl\<close> carries the exception (any
  subclass of \<open>Exception\<close>, by name), \<open>Inr\<close> the result. \<open>bind_exn\<close> runs the next
  statement when nothing was raised.
\<close>

datatype exn = Exn string

definition bind_exn :: "exn + 'a \<Rightarrow> ('a \<Rightarrow> exn + 'b) \<Rightarrow> exn + 'b" where
  "bind_exn m f = (case m of Inl e \<Rightarrow> Inl e | Inr x \<Rightarrow> f x)"

section \<open>Math requests\<close>

text \<open>
  The dynamic evaluator is a parameter. \<open>py_eval expr\<close> is the text that the f-string prints
  for the value of \<open>eval(expr)\<close>, or the exception raised on the way.
\<close>

definition is_math_char :: "char \<Rightarrow> bool" where
  \<comment> \<open>the character class \<open>[\d+\-*/().\s]\<close>\<close>
  "is_math_char c = (isdigit c \<or> c \<in> set ''+-*/().'' \<or> isspace c)"

fun findall_acc :: "string \<Rightarrow> string \<Rightarrow> string list" where
  \<comment> \<open>\<open>re.findall(r'[\d+\-*/().\s]+', request)\<close>: the maximal non-empty runs of class
      characters, left to right. The first argument is the run being read.\<close>
  "findall_acc cur [] = (if cur = [] then [] else [cur])"
| "findall_acc cur (c # cs) =
     (if is_math_char c then findall_acc (cur @ [c]) cs
      else (if cur = [] then [] else [cur]) @ findall_acc [] cs)"

definition re_findall_math :: "string \<Rightarrow> string list" where
  "re_findall_math request = findall_acc [] request"

definition re_match_math :: "string \<Rightarrow> bool" where
  \<comment> \<open>\<open>re.match(r'^[\d+\-*/().\s]+$', expr)\<close>. The anchor \<open>$\<close> also matches before a final
      newline, but a newline is itself a class character, so the match succeeds exactly
      on the non-empty strings of class characters.\<close>
  "re_match_math expr = (expr \<noteq> [] \<and> list_all is_math_char expr)"

definition math_help :: string where
  \<open>math_help = join [newline]
     [''I can help with math! Try asking me things like:'',
      [],
      bullet # '' "Calculate 15 + 25 * 3"'',
      bullet # '' "What's 25% of 200?"'',
      bullet # '' "Convert 100 fahrenheit to celsius"'',
      bullet # '' "Explain how to solve quadratic equations"'',
      bullet # '' "What's the area of a circle with radius 5?"'',
      [],
      ''For complex math problems, I can also explain the steps and concepts involved. What would you like to calculate or learn about?'']\<close>

definition handle_math_request :: "(string \<Rightarrow> exn + string) \<Rightarrow> string \<Rightarrow> string" where
  \<comment> \<open>conversational\_ai.py. The inner \<open>try\<close> passes on any failure of the evaluation;
      nothing else in the body raises, so the outer handler is never entered.\<close>
  "handle_math_request py_eval request =
     (let matches = re_findall_math request in
      if matches \<noteq> [] then
        let expr = strip (concat matches) in
        if re_match_math expr then
          (case py_eval expr of
             Inr result \<Rightarrow>
               ''The answer is: **'' @ result @ ''**'' @ [newline, newline]
                 @ ''Calculation: '' @ expr @ '' = '' @ result
           | Inl e \<Rightarrow> math_help)
        else math_help
      else math_help)"

definition math_try :: string where
  "math_try = ''I can help with math! Try something like: 'Calculate 25 * 4 + 10'' @ [CHR 0x27]"

definition handle_math :: "(string \<Rightarrow> exn + string) \<Rightarrow> string \<Rightarrow> string" where
  \<comment> \<open>simple\_ai\_chat.py. One \<open>try\<close> around the body: a failure of the evaluation gives
      the second message.\<close>
  "handle_math py_eval user_input =
     (let math_expr = re_findall_math user_input in
      if math_expr \<noteq> [] then
        let expr = strip (concat math_expr) in
        if re_match_math expr then
          (case py_eval expr of
             Inr result \<Rightarrow>
               ''**Answer:** '' @ result @ [newline, newline]
                 @ ''Calculation: '' @ expr @ '' = '' @ result
           | Inl e \<Rightarrow> ''I can help with calculations! What would you like me to calculate?'')
        else math_try
      else math_try)"

section \<open>Answer compilation (intelligent\_limbor.py)\<close>

text \<open>
  The pictographs and the box-drawing rule of the report lie beyond the 8-bit range. Each
  is one code point in Python and is represented here by one character of its own.
\<close>

definition glyph_cross :: char where "glyph_cross = CHR 0x80"
definition glyph_robot :: char where "glyph_robot = CHR 0x81"
definition glyph_clipboard :: char where "glyph_clipboard = CHR 0x82"
definition glyph_books :: char where "glyph_books = CHR 0x83"
definition glyph_clock :: char where "glyph_clock = CHR 0x84"
definition glyph_chart :: char where "glyph_chart = CHR 0x86"
definition glyph_rule :: char where "glyph_rule = CHR 0x87"
definition glyph_arrow :: char where "glyph_arrow = CHR 0x88"
definition glyph_search :: char where "glyph_search = CHR 0x89"

datatype item = DictItem "(string \<times> string) list" | TextItem string

datatype source_data = DictData "(string \<times> string) list" | ListData "item list"

text \<open>
  A dictionary is an association list in insertion order, as \<open>dict.items()\<close> yields it.
  \<open>DictData\<close> is the built-in knowledge or the encyclopedia entry, \<open>ListData\<close> a list of
  search results (dictionaries) or of news titles (texts).
\<close>

definition get_built_in_knowledge :: "string \<Rightarrow> (string \<times> string) list option" where
  "get_built_in_knowledge query =
     (let q = lower query in
      if contains ''npu'' q then
        Some [(''definition'', ''Neural Processing Unit (NPU) is a specialized microprocessor designed to accelerate artificial intelligence and machine learning computations.''),
              (''details'', ''NPUs are optimized for neural network operations like matrix multiplications, convolutions, and other AI workloads. They're found in modern smartphones (Apple A17 Pro, Qualcomm Snapdragon), laptops (Apple M-series, Intel Core Ultra), and dedicated AI chips.''),
              (''applications'', ''Used for on-device AI tasks like image recognition, natural language processing, voice assistants, camera enhancements, and real-time translation.''),
              (''advantages'', ''More energy-efficient than CPUs/GPUs for AI tasks, enables privacy-preserving on-device AI, reduces latency by avoiding cloud processing.'')]
      else if contains ''artificial intelligence'' q \<or> contains ''ai'' q then
        Some [(''definition'', ''Artificial Intelligence (AI) is the simulation of human intelligence in machines programmed to think and learn like humans.''),
              (''types'', ''Narrow AI (specific tasks like Siri), General AI (human-level intelligence, not yet achieved), Super AI (beyond human intelligence, theoretical)''),
              (''applications'', ''Virtual assistants, recommendation systems, autonomous vehicles, medical diagnosis, fraud detection, language translation, image recognition''),
              (''technologies'', ''Machine Learning, Deep Learning, Neural Networks, Natural Language Processing, Computer Vision''),
              (''current_state'', ''We're in the era of Narrow AI with rapid advances in Large Language Models (ChatGPT, GPT-4) and multimodal AI systems.'')]
      else if contains ''python'' q \<and> (contains ''programming'' q \<or> contains ''language'' q) then
        Some [(''definition'', ''Python is a high-level, interpreted programming language known for its simplicity and readability.''),
              (''features'', ''Easy syntax, extensive libraries, cross-platform, object-oriented and functional programming support''),
              (''uses'', ''Web development (Django, Flask), Data Science (Pandas, NumPy), AI/ML (TensorFlow, PyTorch), Automation, Scientific computing''),
              (''advantages'', ''Beginner-friendly, large community, extensive documentation, rapid development''),
              (''learning_path'', ''Start with basics '' @ [glyph_arrow] @ '' Learn data structures '' @ [glyph_arrow] @ '' Practice projects '' @ [glyph_arrow] @ '' Explore libraries '' @ [glyph_arrow] @ '' Build real applications'')]
      else if contains ''machine learning'' q \<or> contains ''ml'' q then
        Some [(''definition'', ''Machine Learning is a subset of AI that enables computers to learn and improve from data without explicit programming.''),
              (''types'', ''Supervised Learning (labeled data), Unsupervised Learning (pattern finding), Reinforcement Learning (reward-based)''),
              (''algorithms'', ''Linear Regression, Decision Trees, Random Forest, Neural Networks, Support Vector Machines, K-means Clustering''),
              (''applications'', ''Recommendation systems, Image recognition, Natural language processing, Predictive analytics, Autonomous systems''),
              (''process'', ''Data Collection '' @ [glyph_arrow] @ '' Data Preprocessing '' @ [glyph_arrow] @ '' Model Selection '' @ [glyph_arrow] @ '' Training '' @ [glyph_arrow] @ '' Evaluation '' @ [glyph_arrow] @ '' Deployment '' @ [glyph_arrow] @ '' Monitoring'')]
      else None)"

definition replace_char :: "char \<Rightarrow> char \<Rightarrow> string \<Rightarrow> string" where
  \<comment> \<open>\<open>s.replace(a, b)\<close> for one-character \<open>a\<close> and \<open>b\<close>\<close>
  "replace_char a b s = map (\<lambda>c. if c = a then b else c) s"

definition dict_get :: "(string \<times> string) list \<Rightarrow> string \<Rightarrow> string \<Rightarrow> string" where
  \<comment> \<open>\<open>d.get(key, default)\<close>\<close>
  "dict_get d key dflt = (case map_of d key of Some v \<Rightarrow> v | None \<Rightarrow> dflt)"

definition summary_section ::
  "(string \<Rightarrow> string) \<Rightarrow> (item list \<Rightarrow> string) \<Rightarrow> source_data \<Rightarrow> string" where
  \<comment> \<open>What the main source adds after the heading. Two built-ins of Python are
      parameters: \<open>py_title\<close> is \<open>str.title()\<close>, whose result can leave the 8-bit range,
      and \<open>py_str\<close> is the rendering of a list that the f-string prints.\<close>
  "summary_section py_title py_str main =
     (case main of
        DictData d \<Rightarrow>
          (case map_of d ''definition'' of
             Some definition_text \<Rightarrow> definition_text @ [newline, newline]
           | None \<Rightarrow> [])
          @ concat (map (\<lambda>(key, val).
                if key \<noteq> ''definition'' then
                  bullet # '' '' @ py_title (replace_char (CHR ''_'') (CHR '' '') key) @ '': ''
                    @ val @ [newline]
                else [])
              d)
      | ListData items \<Rightarrow> py_str items @ [newline])"

definition additional_source :: "nat \<Rightarrow> string \<Rightarrow> source_data \<Rightarrow> string" where
  \<comment> \<open>the body of the loop over \<open>sources[1:]\<close>, numbered from 1\<close>
  "additional_source i source_name src =
     show_nat i @ ''. '' @ source_name @ '':'' @ [newline]
     @ (case src of
          DictData d \<Rightarrow>
            (case map_of d ''title'' of
               Some t \<Rightarrow> ''   Title: '' @ t @ [newline] | None \<Rightarrow> [])
            @ (case map_of d ''content'' of
                 Some c \<Rightarrow> ''   Content: '' @ c @ [newline] | None \<Rightarrow> [])
            @ (case map_of d ''url'' of
                 Some u \<Rightarrow> ''   Source: '' @ u @ [newline] | None \<Rightarrow> [])
        | ListData items \<Rightarrow>
            concat (map (\<lambda>it.
                case it of
                  DictItem d \<Rightarrow>
                    ''   '' @ [bullet] @ '' '' @ dict_get d ''title'' ''No title'' @ [newline]
                    @ ''     '' @ take 100 (dict_get d ''snippet'' ''No description'')
                    @ ''...'' @ [newline]
                | TextItem s \<Rightarrow> ''   '' @ [bullet] @ '' '' @ take 100 s @ ''...'' @ [newline])
              (take 3 items)))
     @ [newline]"

definition compile_comprehensive_response ::
  "(string \<Rightarrow> string) \<Rightarrow> (item list \<Rightarrow> string) \<Rightarrow> string \<Rightarrow> string
     \<Rightarrow> (string \<times> source_data) list \<Rightarrow> string" where
  \<comment> \<open>\<open>now\<close> is the text of \<open>datetime.now().strftime(...)\<close> at the time of the call.\<close>
  "compile_comprehensive_response py_title py_str now query sources =
     (case sources of
        [] \<Rightarrow>
          [glyph_cross] @ '' I couldn't find comprehensive information about ''
            @ [CHR 0x27] @ query @ [CHR 0x27]
            @ ''. Try rephrasing your question or being more specific.''
      | main_source # more \<Rightarrow>
          [newline] @ [glyph_robot] @ '' Limbor's Research Report: '' @ query @ [newline]
          @ replicate 60 (CHR ''='') @ [newline, newline]
          @ [glyph_clipboard] @ '' SUMMARY:'' @ [newline]
          @ summary_section py_title py_str (snd main_source)
          @ [newline] @ replicate 60 glyph_rule @ [newline, newline]
          @ (if 1 < length sources then
               [glyph_books] @ '' ADDITIONAL SOURCES:'' @ [newline, newline]
               @ concat (map (\<lambda>(i, (source_name, src)). additional_source i source_name src)
                          (enumerate 1 more))
             else [])
          @ replicate 60 glyph_rule @ [newline]
          @ [glyph_clock] @ '' Research completed at '' @ now @ [newline]
          @ [glyph_chart] @ '' Sources consulted: '' @ show_nat (length sources) @ [newline])"

text \<open>
  The console is a parameter: \<open>console line\<close> is the outcome of \<open>print(line)\<close>, which writes
  the line or raises (\<open>UnicodeEncodeError\<close> when the encoding of the output stream has no
  form for a character of the line, \<open>OSError\<close> when the stream is gone). \<open>describe e\<close> is the
  text that an f-string prints for the exception \<open>e\<close>.

  The three network providers of intelligent\_limbor.py each have the shape
  \<open>try: ... except Exception as e: print(...); return None\<close>. The requests and the parsing
  inside \<open>try\<close> are a parameter: \<open>web\<close> gives, for each provider and query, the value that
  these statements return or the exception that they raise. The handler, with its write to
  the console, is modelled.
\<close>

record web_outcome =
  wikipedia_body :: "string \<Rightarrow> exn + (string \<times> string) list option"
  duckduckgo_body :: "string \<Rightarrow> exn + (string \<times> string) list list option"
  news_body :: "string \<Rightarrow> exn + string list option"

definition search_wikipedia_detailed ::
  "(string \<Rightarrow> exn + unit) \<Rightarrow> (exn \<Rightarrow> string) \<Rightarrow> web_outcome \<Rightarrow> string
     \<Rightarrow> exn + (string \<times> string) list option" where
  "search_wikipedia_detailed console describe web query =
     (case wikipedia_body web query of
        Inr result \<Rightarrow> Inr result
      | Inl e \<Rightarrow>
          bind_exn (console (''Wikipedia search error: '' @ describe e)) (\<lambda>_. Inr None))"

definition search_duckduckgo_detailed ::
  "(string \<Rightarrow> exn + unit) \<Rightarrow> (exn \<Rightarrow> string) \<Rightarrow> web_outcome \<Rightarrow> string
     \<Rightarrow> exn + (string \<times> string) list list option" where
  "search_duckduckgo_detailed console describe web query =
     (case duckduckgo_body web query of
        Inr result \<Rightarrow> Inr result
      | Inl e \<Rightarrow>
          bind_exn (console (''DuckDuckGo search error: '' @ describe e)) (\<lambda>_. Inr None))"

definition search_news ::
  "(string \<Rightarrow> exn + unit) \<Rightarrow> (exn \<Rightarrow> string) \<Rightarrow> web_outcome \<Rightarrow> string
     \<Rightarrow> exn + string list option" where
  "search_news console describe web query =
     (case news_body web query of
        Inr result \<Rightarrow> Inr result
      | Inl e \<Rightarrow>
          bind_exn (console (''News search error: '' @ describe e)) (\<lambda>_. Inr None))"

definition news_words :: "string list" where
  "news_words = [''news'', ''latest'', ''current'', ''today'', ''recent'']"

definition search_multiple_sources ::
  "(string \<Rightarrow> exn + unit) \<Rightarrow> (exn \<Rightarrow> string) \<Rightarrow> web_outcome \<Rightarrow> string
     \<Rightarrow> exn + (string \<times> source_data) list" where
  "search_multiple_sources console describe web query =
     (let sources = [] in
      bind_exn (search_duckduckgo_detailed console describe web query) (\<lambda>ddg_result.
      let sources = (case ddg_result of
                       Some ddg_result \<Rightarrow>
                         if ddg_result \<noteq> [] then
                           sources @ [(''DuckDuckGo Search'', ListData (map DictItem ddg_result))]
                         else sources
                     | None \<Rightarrow> sources)
      in
      if list_ex (\<lambda>word. contains word (lower query)) news_words then
        bind_exn (search_news console describe web query) (\<lambda>news_result.
        Inr (case news_result of
               Some news_result \<Rightarrow>
                 if news_result \<noteq> [] then
                   sources @ [(''News Sources'', ListData (map TextItem news_result))]
                 else sources
             | None \<Rightarrow> sources))
      else Inr sources))"

text \<open>
  \<open>get_comprehensive_answer\<close> opens with two \<open>print\<close> calls outside any handler, and has no
  handler of its own: an exception raised in it reaches its caller, the loop of \<open>main\<close>,
  which catches it.
\<close>

definition get_comprehensive_answer ::
  "(string \<Rightarrow> exn + unit) \<Rightarrow> (exn \<Rightarrow> string) \<Rightarrow> web_outcome \<Rightarrow> (string \<Rightarrow> string)
     \<Rightarrow> (item list \<Rightarrow> string) \<Rightarrow> string \<Rightarrow> string \<Rightarrow> exn + string" where
  "get_comprehensive_answer console describe web py_title py_str now query =
     bind_exn (console ([glyph_search] @ '' Researching: '' @ query)) (\<lambda>_.
     bind_exn (console ([glyph_books] @ '' Gathering information from multiple sources...''))
       (\<lambda>_.
     let sources = [];
         sources = (case get_built_in_knowledge query of
                      Some built_in \<Rightarrow>
                        if built_in \<noteq> [] then
                          sources @ [(''Built-in Knowledge'', DictData built_in)]
                        else sources
                    | None \<Rightarrow> sources)
     in
     bind_exn (search_wikipedia_detailed console describe web query) (\<lambda>wiki_info.
     let sources = (case wiki_info of
                      Some wiki_info \<Rightarrow>
                        if wiki_info \<noteq> [] then sources @ [(''Wikipedia'', DictData wiki_info)]
                        else sources
                    | None \<Rightarrow> sources)
     in
     bind_exn (search_multiple_sources console describe web query) (\<lambda>web_results.
     let sources = sources @ web_results
     in Inr (compile_comprehensive_response py_title py_str now query sources)))))"

section \<open>Network providers (simple\_ai\_chat.py, smart\_search\_test.py)\<close>

text \<open>
  The network is a parameter: \<open>http\<close> answers a request with a response or with the
  exception that \<open>requests.get\<close> raises (connection error, timeout); the body of a
  response parses to a JSON value or raises. The line that a handler writes to the console
  is not modelled.
\<close>

datatype json = JNull | JBool bool | JNum int | JStr string | JArr "json list"
  | JObj "(string \<times> json) list"

text \<open>
  \<open>JNum\<close> stands for every JSON number: in the operations below a float behaves as an
  integer does (it is true unless zero, has no length and is no container).
\<close>

definition truthy :: "json \<Rightarrow> bool" where
  "truthy v = (case v of JNull \<Rightarrow> False | JBool b \<Rightarrow> b | JNum n \<Rightarrow> n \<noteq> 0
     | JStr s \<Rightarrow> s \<noteq> [] | JArr xs \<Rightarrow> xs \<noteq> [] | JObj d \<Rightarrow> d \<noteq> [])"

definition py_in :: "string \<Rightarrow> json \<Rightarrow> exn + bool" where
  \<comment> \<open>\<open>key in v\<close>\<close>
  "py_in key v = (case v of
       JObj d \<Rightarrow> Inr (key \<in> fst ` set d)
     | JArr xs \<Rightarrow> Inr (JStr key \<in> set xs)
     | JStr s \<Rightarrow> Inr (contains key s)
     | _ \<Rightarrow> Inl (Exn ''TypeError''))"

definition py_getitem :: "json \<Rightarrow> string \<Rightarrow> exn + json" where
  \<comment> \<open>\<open>v[key]\<close> for a string key\<close>
  "py_getitem v key = (case v of
       JObj d \<Rightarrow> (case map_of d key of Some x \<Rightarrow> Inr x | None \<Rightarrow> Inl (Exn ''KeyError''))
     | _ \<Rightarrow> Inl (Exn ''TypeError''))"

definition py_first :: "json \<Rightarrow> exn + json" where
  \<comment> \<open>\<open>v[0]\<close>\<close>
  "py_first v = (case v of
       JArr xs \<Rightarrow> (case xs of [] \<Rightarrow> Inl (Exn ''IndexError'') | x # _ \<Rightarrow> Inr x)
     | JStr s \<Rightarrow> (case s of [] \<Rightarrow> Inl (Exn ''IndexError'') | c # _ \<Rightarrow> Inr (JStr [c]))
     | JObj d \<Rightarrow> Inl (Exn ''KeyError'')
     | _ \<Rightarrow> Inl (Exn ''TypeError''))"

definition py_len :: "json \<Rightarrow> exn + nat" where
  "py_len v = (case v of
       JStr s \<Rightarrow> Inr (length s)
     | JArr xs \<Rightarrow> Inr (length xs)
     | JObj d \<Rightarrow> Inr (length d)
     | _ \<Rightarrow> Inl (Exn ''TypeError''))"

definition py_truncate :: "nat \<Rightarrow> json \<Rightarrow> exn + json" where
  \<comment> \<open>\<open>v[:n] + "..."\<close>: only a string can be sliced and then extended by a string\<close>
  "py_truncate n v = (case v of
       JStr s \<Rightarrow> Inr (JStr (take n s @ ''...''))
     | _ \<Rightarrow> Inl (Exn ''TypeError''))"

record response =
  status_code :: int
  json_body :: "exn + json"

datatype request = Summary string | Search string

text \<open>
  \<open>Summary title\<close> is the GET of the page-summary address built from \<open>quote(title)\<close>,
  \<open>Search text\<close> the GET of the search API with \<open>srsearch = text\<close>.
\<close>

function replace :: "string \<Rightarrow> string \<Rightarrow> string \<Rightarrow> string" where
  \<comment> \<open>\<open>s.replace(old, new)\<close> for a non-empty \<open>old\<close>: occurrences are replaced from the
      left and do not overlap\<close>
  "replace old new [] = []"
| "replace old new (c # cs) =
     (if old \<noteq> [] \<and> prefix old (c # cs)
      then new @ replace old new (drop (length old) (c # cs))
      else c # replace old new cs)"
  by pat_completeness auto
termination
  by (relation "measure (\<lambda>(old, new, s). length s)") auto

definition read_extract :: "response \<Rightarrow> exn + json option" where
  \<comment> \<open>The block that follows each summary request: \<open>Inr (Some extract)\<close> is its
      \<open>return extract\<close>, \<open>Inr None\<close> is falling through.\<close>
  "read_extract resp =
     (if status_code resp = 200 then
        bind_exn (json_body resp) (\<lambda>data.
        bind_exn (py_in ''extract'' data) (\<lambda>has_extract.
        if has_extract then
          bind_exn (py_getitem data ''extract'') (\<lambda>extract.
          if truthy extract then
            bind_exn (py_len extract) (\<lambda>n.
            if 400 < n then
              bind_exn (py_truncate 397 extract) (\<lambda>extract. Inr (Some extract))
            else Inr (Some extract))
          else Inr None)
        else Inr None))
      else Inr None)"

definition search_wikipedia_body :: "(request \<Rightarrow> exn + response) \<Rightarrow> string \<Rightarrow> exn + json option" where
  \<comment> \<open>the statements inside \<open>try\<close>\<close>
  "search_wikipedia_body http query =
     (let clean_query =
            strip (replace ''how does'' [] (replace ''who is'' [] (replace ''what is'' [] query)))
      in
      bind_exn (http (Summary clean_query)) (\<lambda>resp.
      bind_exn (read_extract resp) (\<lambda>found.
      case found of
        Some extract \<Rightarrow> Inr (Some extract)
      | None \<Rightarrow>
          bind_exn (http (Search clean_query)) (\<lambda>search_response.
          bind_exn (json_body search_response) (\<lambda>search_data.
          bind_exn (py_in ''query'' search_data) (\<lambda>has_query.
          if \<not> has_query then Inr None else
          bind_exn (py_getitem search_data ''query'') (\<lambda>q.
          bind_exn (py_in ''search'' q) (\<lambda>has_search.
          if \<not> has_search then Inr None else
          bind_exn (py_getitem q ''search'') (\<lambda>results.
          if \<not> truthy results then Inr None else
          bind_exn (py_first results) (\<lambda>first_result.
          bind_exn (py_getitem first_result ''title'') (\<lambda>page_title.
          case page_title of
            JStr t \<Rightarrow> bind_exn (http (Summary t)) (\<lambda>summary_response.
                        read_extract summary_response)
          | _ \<Rightarrow> Inl (Exn ''TypeError''))))))))))))"

definition search_wikipedia :: "(request \<Rightarrow> exn + response) \<Rightarrow> string \<Rightarrow> json option" where
  \<comment> \<open>\<open>try: ... except Exception: return None\<close>\<close>
  "search_wikipedia http query =
     (case search_wikipedia_body http query of Inl e \<Rightarrow> None | Inr result \<Rightarrow> result)"

text \<open>
  For the web search, \<open>fetch query\<close> is the list of \<open>get_text()\<close> of the elements that
  \<open>find_all\<close> selects in the page fetched for the query, or the exception raised by the
  request or by the parser.
\<close>

definition navigation_text :: "string list" where
  "navigation_text = [''cookies'', ''privacy'', ''javascript'', ''sign in'']"

fun first_result_text :: "string list \<Rightarrow> string option" where
  \<comment> \<open>the loop over \<open>results[:3]\<close>, which returns at the first text it accepts\<close>
  "first_result_text [] = None"
| "first_result_text (result # results) =
     (let text = strip result in
      if text \<noteq> [] \<and> 30 < length text \<and> length text < 400
         \<and> \<not> list_ex (\<lambda>skip. contains skip (lower text)) navigation_text
      then Some (if 300 < length text then take 300 text @ ''...'' else text)
      else first_result_text results)"

definition search_duckduckgo :: "(string \<Rightarrow> exn + string list) \<Rightarrow> string \<Rightarrow> string option" where
  "search_duckduckgo fetch query =
     (case fetch query of
        Inl e \<Rightarrow> None
      | Inr results \<Rightarrow> first_result_text (take 3 results))"

section \<open>Sample network behaviour\<close>






definition utf8_console :: "string \<Rightarrow> exn + unit" where
  \<comment> \<open>an output stream in UTF-8: every line of the model's texts is written\<close>
  "utf8_console line = Inr ()"

definition ascii_console :: "string \<Rightarrow> exn + unit" where
  \<comment> \<open>an output stream in ASCII: a line with a code point from 128 on is refused\<close>
  "ascii_console line =
     (if list_all (\<lambda>c. (of_char c :: nat) < 128) line then Inr ()
      else Inl (Exn ''UnicodeEncodeError''))"

definition closing_console :: "string \<Rightarrow> exn + unit" where
  \<comment> \<open>an output stream that is gone after the line "Researching" was written\<close>
  "closing_console line =
     (if prefix [glyph_search] line then Inr () else Inl (Exn ''BrokenPipeError''))"

definition late_console :: "string \<Rightarrow> exn + unit" where
  \<comment> \<open>an output stream that is gone after the two progress lines were written\<close>
  "late_console line =
     (if prefix [glyph_search] line \<or> prefix [glyph_books] line then Inr ()
      else Inl (Exn ''BrokenPipeError''))"

definition exn_name :: "exn \<Rightarrow> string" where
  "exn_name e = (case e of Exn name \<Rightarrow> name)"

definition keep_title :: "string \<Rightarrow> string" where
  \<comment> \<open>stands for \<open>str.title()\<close> where no dictionary is rendered\<close>
  "keep_title key = key"

definition list_text :: "item list \<Rightarrow> string" where
  \<comment> \<open>stands for the rendering of a list where no list is rendered\<close>
  "list_text items = ''[]''"

definition silent_web :: web_outcome where
  \<comment> \<open>every provider finds nothing\<close>
  "silent_web = \<lparr>wikipedia_body = (\<lambda>q. Inr None), duckduckgo_body = (\<lambda>q. Inr None),
     news_body = (\<lambda>q. Inr None)\<rparr>"

definition unreachable_web :: web_outcome where
  \<comment> \<open>every request fails\<close>
  "unreachable_web = \<lparr>wikipedia_body = (\<lambda>q. Inl (Exn ''ConnectionError'')),
     duckduckgo_body = (\<lambda>q. Inl (Exn ''ConnectionError'')),
     news_body = (\<lambda>q. Inl (Exn ''ConnectionError''))\<rparr>"

section \<open>The four signal contributions of a score\<close>

text \<open>
  The scoring loops add a position, a length, a keyword and a digit contribution. They are
  named here one by one, as the loops compute them, and shown below to sum to the score.
\<close>


definition position_bonus :: "nat \<Rightarrow> nat \<Rightarrow> int" where
  "position_bonus n i =
     (if i = 0 then 3 else if i + 1 = n then 2 else if 10 * i < 3 * n then 1 else 0)"

definition length_bonus :: "nat \<Rightarrow> int" where
  "length_bonus len =
     (if 50 < len \<and> len < 200 then 2 else if 20 < len \<and> len < 300 then 1 else 0)"

definition keyword_hits :: "string list \<Rightarrow> string \<Rightarrow> int" where
  "keyword_hits kws sentence =
     int (length (filter (\<lambda>keyword. contains (lower keyword) (lower sentence)) kws))"

definition digit_bonus :: "string \<Rightarrow> int" where
  "digit_bonus sentence = (if \<exists>c \<in> set sentence. isdigit c then 1 else 0)"

definition simple_position_bonus :: "nat \<Rightarrow> nat \<Rightarrow> int" where
  "simple_position_bonus n i = (if i = 0 then 3 else if i + 1 = n then 2 else 0)"

definition simple_length_bonus :: "nat \<Rightarrow> int" where
  "simple_length_bonus len = (if 30 \<le> len \<and> len \<le> 150 then 2 else 0)"

section \<open>Sample data\<close>

definition sample_sentences :: "string list" where
  "sample_sentences = [''The sun is a star'', ''It is very hot indeed'',
     ''The quick brown fox jumps over the lazy dog in fog'',
     ''The key result is important because'']"

definition sample_text :: string where
  "sample_text = ''The sun is a star at the centre of the solar system and it is very hot. It provides light and heat to the Earth every day.''"


definition snippet_a :: string where
  "snippet_a = ''Python is a programming language''"

definition snippet_b :: string where
  "snippet_b = ''Python is a programming language used for data science''"

definition snippet_c :: string where
  "snippet_c = ''PYTHON IS A PROGRAMMING LANGUAGE''"

definition snippet_d :: string where
  "snippet_d = ''Python is a programming language, as they say''"

definition sample_soup :: "string \<Rightarrow> string list" where
  "sample_soup selector = (if selector = ''div.BVG0Nb'' then [snippet_a, snippet_b] else [])"

section \<open>Evaluating \<open>lower\<close>\<close>

lemma upper_chars_bits_all: "list_all (\<lambda>u. \<not> digit5 u \<and> digit6 u) upper_chars"
  by (simp add: upper_chars_def)

lemma upper_chars_bits:
  "Char b0 b1 b2 b3 b4 b5 b6 b7 \<in> set upper_chars \<Longrightarrow> \<not> b5 \<and> b6"
  using upper_chars_bits_all by (auto simp: list_all_iff)

lemma length_upper_chars: "length upper_chars = length lower_chars"
  by (simp add: upper_chars_def lower_chars_def)

lemma lower_char_code [code]:
  "lower_char (Char b0 b1 b2 b3 b4 b5 b6 b7) =
     (if b5 \<or> \<not> b6 then Char b0 b1 b2 b3 b4 b5 b6 b7
      else case map_of (zip upper_chars lower_chars) (Char b0 b1 b2 b3 b4 b5 b6 b7) of
             Some d \<Rightarrow> d | None \<Rightarrow> Char b0 b1 b2 b3 b4 b5 b6 b7)"
proof (cases "b5 \<or> \<not> b6")
  case True
  then have "Char b0 b1 b2 b3 b4 b5 b6 b7 \<notin> set upper_chars"
    using upper_chars_bits by blast
  then have "map_of (zip upper_chars lower_chars) (Char b0 b1 b2 b3 b4 b5 b6 b7) = None"
    by (simp add: map_of_zip_is_None [OF length_upper_chars])
  with True show ?thesis by (simp add: lower_char_def)
next
  case False
  then show ?thesis by (simp add: lower_char_def cong: option.case_cong)
qed

section \<open>Scores are sums of the signal contributions\<close>

lemma count_keywords_hits:
  "count_keywords kws sentence score = score + keyword_hits kws sentence"
  unfolding count_keywords_def keyword_hits_def
  by (induction kws arbitrary: score) simp_all

lemma re_search_digits_bonus:
  "(if re_search_digits sentence then score + 1 else score) = score + digit_bonus sentence"
  by (simp add: re_search_digits_def digit_bonus_def list_ex_iff)

lemma sentence_score_sum:
  "sentence_score n i sentence =
     position_bonus n i + length_bonus (length sentence)
       + keyword_hits score_keywords sentence + digit_bonus sentence"
  unfolding sentence_score_def Let_def re_search_digits_bonus count_keywords_hits
  by (simp add: position_bonus_def length_bonus_def)

lemma simple_sentence_score_sum:
  "simple_sentence_score n i sentence =
     simple_position_bonus n i + simple_length_bonus (length sentence)
       + keyword_hits important_words sentence + digit_bonus sentence"
  unfolding simple_sentence_score_def Let_def re_search_digits_bonus count_keywords_hits
  by (simp add: simple_position_bonus_def simple_length_bonus_def)

lemma score_sentences_nth:
  "i < length sentences \<Longrightarrow>
     score_sentences sentences ! i
       = (sentences ! i, sentence_score (length sentences) i (sentences ! i))"
  by (simp add: score_sentences_def nth_enumerate_eq)

lemma simple_score_sentences_nth:
  "i < length sentences \<Longrightarrow>
     simple_score_sentences sentences ! i
       = (sentences ! i, simple_sentence_score (length sentences) i (sentences ! i))"
  by (simp add: simple_score_sentences_def nth_enumerate_eq)

lemma length_score_sentences [simp]:
  "length (score_sentences sentences) = length sentences"
  by (simp add: score_sentences_def)

lemma length_simple_score_sentences [simp]:
  "length (simple_score_sentences sentences) = length sentences"
  by (simp add: simple_score_sentences_def)

lemma length_sort_by_score [simp]: "length (sort_by_score scored) = length scored"
  by (simp add: sort_by_score_def)

lemma contains_sublist: "contains sub s = sublist sub s"
  by (induction s) (auto simp: sublist_Cons_right)

lemma contains_append: "contains sub s \<Longrightarrow> contains sub (s @ t)"
  by (simp add: contains_sublist sublist_append)

lemma keyword_hits_append: "keyword_hits kws s \<le> keyword_hits kws (s @ t)"
proof -
  have "length (filter (\<lambda>k. contains (lower k) (lower s)) kws)
      \<le> length (filter (\<lambda>k. contains (lower k) (lower (s @ t))) kws)"
    by (induction kws) (auto simp: lower_def contains_append)
  then show ?thesis by (simp add: keyword_hits_def)
qed

lemma digit_bonus_append: "digit_bonus s \<le> digit_bonus (s @ t)"
  by (auto simp: digit_bonus_def)

section \<open>Scores of the sample sentences\<close>

lemma keyword_hits_lowered:
  "keyword_hits kws sentence
     = int (length (filter (\<lambda>keyword. contains keyword (lower sentence)) (map lower kws)))"
  by (simp add: keyword_hits_def filter_map comp_def)

lemma lower_score_keywords: "map lower score_keywords = score_keywords"
  by code_simp

lemma lower_important_words: "map lower important_words = important_words"
  by code_simp

lemma lower_sample_sentences:
  "map lower sample_sentences = [''the sun is a star'', ''it is very hot indeed'',
     ''the quick brown fox jumps over the lazy dog in fog'',
     ''the key result is important because'']"
  by code_simp

lemma sample_keyword_hits:
  "map (keyword_hits score_keywords) sample_sentences = [0, 0, 0, 4]"
  "map (keyword_hits important_words) sample_sentences = [0, 0, 0, 4]"
proof -
  have "map (keyword_hits score_keywords) sample_sentences
      = map (\<lambda>s. int (length (filter (\<lambda>keyword. contains keyword s) score_keywords)))
          (map lower sample_sentences)"
    by (simp add: keyword_hits_lowered lower_score_keywords comp_def)
  also have "\<dots> = [0, 0, 0, 4]"
    unfolding lower_sample_sentences by code_simp
  finally show "map (keyword_hits score_keywords) sample_sentences = [0, 0, 0, 4]" .
  have "map (keyword_hits important_words) sample_sentences
      = map (\<lambda>s. int (length (filter (\<lambda>keyword. contains keyword s) important_words)))
          (map lower sample_sentences)"
    by (simp add: keyword_hits_lowered lower_important_words comp_def)
  also have "\<dots> = [0, 0, 0, 4]"
    unfolding lower_sample_sentences by code_simp
  finally show "map (keyword_hits important_words) sample_sentences = [0, 0, 0, 4]" .
qed

lemma sample_digit_bonus: "map digit_bonus sample_sentences = [0, 0, 0, 0]"
  by code_simp

lemma sample_lengths: "map length sample_sentences = [17, 21, 50, 35]"
  by (simp add: sample_sentences_def)

lemma score_sentences_map:
  "score_sentences ss
     = map (\<lambda>(i, s). (s, position_bonus (length ss) i + length_bonus (length s)
                          + keyword_hits score_keywords s + digit_bonus s))
         (enumerate 0 ss)"
  by (simp add: score_sentences_def sentence_score_sum)

lemma simple_score_sentences_map:
  "simple_score_sentences ss
     = map (\<lambda>(i, s). (s, simple_position_bonus (length ss) i + simple_length_bonus (length s)
                          + keyword_hits important_words s + digit_bonus s))
         (enumerate 0 ss)"
  by (simp add: simple_score_sentences_def simple_sentence_score_sum)

lemma sample_scores:
  "map snd (score_sentences sample_sentences) = [3, 2, 1, 7]"
  "map snd (simple_score_sentences sample_sentences) = [3, 0, 2, 8]"
  using sample_keyword_hits sample_digit_bonus sample_lengths
  unfolding score_sentences_map simple_score_sentences_map
  by (simp_all add: sample_sentences_def position_bonus_def length_bonus_def
      simple_position_bonus_def simple_length_bonus_def)

lemma fst_score_sentences [simp]: "map fst (score_sentences ss) = ss"
  by (rule nth_equalityI) (simp_all add: score_sentences_nth)

lemma fst_simple_score_sentences [simp]: "map fst (simple_score_sentences ss) = ss"
  by (rule nth_equalityI) (simp_all add: simple_score_sentences_nth)

lemma sample_scored:
  "score_sentences sample_sentences = zip sample_sentences [3, 2, 1, 7]"
  "simple_score_sentences sample_sentences = zip sample_sentences [3, 0, 2, 8]"
  using zip_map_fst_snd [of "score_sentences sample_sentences"]
    zip_map_fst_snd [of "simple_score_sentences sample_sentences"]
  by (simp_all add: sample_scores)




section \<open>Ranking by a stable descending sort\<close>







section \<open>Order of the selected sentences\<close>




section \<open>The length contribution to a score\<close>

text \<open>
  C5 (amended). For every sentence of a scored sequence, the score less its position, keyword
  and digit contributions is the length contribution. In conversational\_ai.py it is
  \<open>+2\<close> when \<open>50 < len < 200\<close> (the lower bound is strict), otherwise \<open>+1\<close> when
  \<open>20 < len < 300\<close>, otherwise \<open>+0\<close>, so at most one length bonus applies and a sentence of
  exactly 50 characters receives \<open>+1\<close>. In simple\_ai\_chat.py it is \<open>+2\<close> when
  \<open>30 \<le> len \<le> 150\<close> and \<open>+0\<close> otherwise.
\<close>

theorem length_contribution:
  assumes "i < length sentences"
  shows "snd (score_sentences sentences ! i)
           - (position_bonus (length sentences) i
              + keyword_hits score_keywords (sentences ! i) + digit_bonus (sentences ! i))
         = (if 50 < length (sentences ! i) \<and> length (sentences ! i) < 200 then 2
            else if 20 < length (sentences ! i) \<and> length (sentences ! i) < 300 then 1
            else 0)
       \<and> snd (simple_score_sentences sentences ! i)
           - (simple_position_bonus (length sentences) i
              + keyword_hits important_words (sentences ! i) + digit_bonus (sentences ! i))
         = (if 30 \<le> length (sentences ! i) \<and> length (sentences ! i) \<le> 150 then 2 else 0)"
  using assms
  by (simp add: score_sentences_nth simple_score_sentences_nth sentence_score_sum
      simple_sentence_score_sum length_bonus_def simple_length_bonus_def)

theorem length_contribution_witness:
  "2 < length sample_sentences
   \<and> snd (score_sentences sample_sentences ! 2)
       - (position_bonus (length sample_sentences) 2
          + keyword_hits score_keywords (sample_sentences ! 2)
          + digit_bonus (sample_sentences ! 2)) = 1
   \<and> snd (simple_score_sentences sample_sentences ! 2)
       - (simple_position_bonus (length sample_sentences) 2
          + keyword_hits important_words (sample_sentences ! 2)
          + digit_bonus (sample_sentences ! 2)) = 2"
proof -
  have h: "2 < length sample_sentences"
    by (simp add: sample_sentences_def)
  have len: "length (sample_sentences ! 2) = 50"
    by (simp add: sample_sentences_def)
  show ?thesis
    using h len length_contribution [OF h] by simp
qed

text \<open>
  The third sample sentence has exactly 50 characters, is neither first nor last nor early
  and has no keyword and no digit: its whole score is its length contribution, and that is
  1, not 2.
\<close>

theorem length_50_counterexample:
  "length (sample_sentences ! 2) = 50
   \<and> snd (score_sentences sample_sentences ! 2) = 1
   \<and> position_bonus (length sample_sentences) 2 = 0
   \<and> keyword_hits score_keywords (sample_sentences ! 2) = 0
   \<and> digit_bonus (sample_sentences ! 2) = 0"
  using sample_keyword_hits(1) sample_digit_bonus
  unfolding sample_scored
  by (simp add: sample_sentences_def position_bonus_def)

section \<open>How many sentences are selected\<close>

text \<open>
  C6 (amended). For every sentence sequence of length \<open>n\<close>, \<open>extract_key_sentences\<close>
  (conversational\_ai.py) returns \<open>min keep_count n\<close> sentences, hence at most
  \<open>keep_count\<close>, where \<open>keep_count\<close> is 2 for \<open>n \<le> 5\<close>, 3 for \<open>6 \<le> n \<le> 10\<close> and
  \<open>max 3 (n div 3)\<close> beyond. \<open>select_key_sentences\<close> (simple\_ai\_chat.py) returns a sequence
  of at most three sentences as it is, by its guard \<open>len(sentences) <= 3\<close>, and beyond
  that \<open>min 3 (max 2 (n div 3))\<close> sentences: at most \<open>keep_count\<close> sentences for every \<open>n\<close>
  but 3, and all three sentences at \<open>n = 3\<close>.
\<close>

theorem selection_size:
  "length (extract_key_sentences sentences full_text)
     = min (keep_count (length sentences)) (length sentences)
   \<and> length (extract_key_sentences sentences full_text) \<le> keep_count (length sentences)
   \<and> length (select_key_sentences sentences)
       \<le> (if length sentences = 3 then 3 else keep_count (length sentences))
   \<and> keep_count n = (if n \<le> 5 then 2 else if n \<le> 10 then 3 else max 3 (n div 3))
   \<and> (length sentences \<le> 3 \<longrightarrow> select_key_sentences sentences = sentences)
   \<and> length (select_key_sentences sentences)
       = (if length sentences \<le> 3 then length sentences
          else min 3 (max 2 (length sentences div 3)))"
proof (intro conjI)
  show e: "length (extract_key_sentences sentences full_text)
     = min (keep_count (length sentences)) (length sentences)"
    by (simp add: extract_key_sentences_def)
  show "length (extract_key_sentences sentences full_text) \<le> keep_count (length sentences)"
    unfolding e by simp
  show "length (select_key_sentences sentences)
       \<le> (if length sentences = 3 then 3 else keep_count (length sentences))"
  proof (cases "length sentences \<le> 3")
    case True
    then show ?thesis
      by (simp add: select_key_sentences_def keep_count_def)
  next
    case False
    then have "length (select_key_sentences sentences)
        \<le> min 3 (max 2 (length sentences div 3))"
      by (simp add: select_key_sentences_def Let_def)
    also have "\<dots> \<le> keep_count (length sentences)"
      unfolding keep_count_def min_def max_def by presburger
    finally show ?thesis using False by simp
  qed
  show "keep_count n = (if n \<le> 5 then 2 else if n \<le> 10 then 3 else max 3 (n div 3))"
    by (simp add: keep_count_def)
  show "length sentences \<le> 3 \<longrightarrow> select_key_sentences sentences = sentences"
    by (simp add: select_key_sentences_def)
  show "length (select_key_sentences sentences)
       = (if length sentences \<le> 3 then length sentences
          else min 3 (max 2 (length sentences div 3)))"
  proof (cases "length sentences \<le> 3")
    case True
    then show ?thesis
      by (simp add: select_key_sentences_def)
  next
    case False
    then have "length (select_key_sentences sentences)
        = min (min 3 (max 2 (length sentences div 3))) (length sentences)"
      by (simp add: select_key_sentences_def Let_def)
    also have "\<dots> = min 3 (max 2 (length sentences div 3))"
      using False by (simp add: min_def)
    finally show ?thesis using False by simp
  qed
qed

text \<open>A sequence of three sentences comes back as it was given, in its own order.\<close>

theorem selection_size_witness:
  "select_key_sentences [''The sun is a star in space'', ''It is very hot'',
      ''It provides light and heat to Earth'']
     = [''The sun is a star in space'', ''It is very hot'',
        ''It provides light and heat to Earth'']"
proof -
  have "length [''The sun is a star in space'', ''It is very hot'',
      ''It provides light and heat to Earth''] \<le> 3"
    by simp
  then show ?thesis
    using selection_size [where sentences = "[''The sun is a star in space'',
      ''It is very hot'', ''It provides light and heat to Earth'']"]
    by blast
qed

text \<open>Three sentences go through \<open>select_key_sentences\<close> untouched, one more than \<open>keep_count\<close>.\<close>

theorem selection_size_counterexample:
  "length (select_key_sentences [''The sun is a star in space'', ''It is very hot and bright'',
      ''It provides light and heat to Earth'']) = 3 \<and> keep_count 3 = 2"
  by (simp add: select_key_sentences_def keep_count_def)

section \<open>Scoring is monotone in keywords\<close>

text \<open>
  C9. For every sentence of a sequence, appending one keyword of the fixed keyword set to
  its text, in a way that leaves its length class unchanged (its position is unchanged),
  never decreases its score. This holds for the scorer of conversational\_ai.py and, with
  its own keyword list and length class, for the scorer of simple\_ai\_chat.py.
\<close>

theorem keyword_monotone:
  assumes "i < length sentences"
  shows "(keyword \<in> set score_keywords
          \<and> length_bonus (length (sentences ! i @ keyword)) = length_bonus (length (sentences ! i))
          \<longrightarrow> snd (score_sentences sentences ! i)
                \<le> snd (score_sentences (sentences[i := sentences ! i @ keyword]) ! i))
       \<and> (keyword \<in> set important_words
          \<and> simple_length_bonus (length (sentences ! i @ keyword))
              = simple_length_bonus (length (sentences ! i))
          \<longrightarrow> snd (simple_score_sentences sentences ! i)
                \<le> snd (simple_score_sentences (sentences[i := sentences ! i @ keyword]) ! i))"
  using assms keyword_hits_append [of score_keywords "sentences ! i" keyword]
    keyword_hits_append [of important_words "sentences ! i" keyword]
    digit_bonus_append [of "sentences ! i" keyword]
  by (simp add: score_sentences_nth simple_score_sentences_nth sentence_score_sum
      simple_sentence_score_sum)

theorem keyword_monotone_witness:
  "1 < length sample_sentences
   \<and> snd (score_sentences sample_sentences ! 1)
       \<le> snd (score_sentences (sample_sentences[1 := sample_sentences ! 1 @ ''key'']) ! 1)
   \<and> snd (simple_score_sentences sample_sentences ! 1)
       \<le> snd (simple_score_sentences
               (sample_sentences[1 := sample_sentences ! 1 @ ''key'']) ! 1)"
proof -
  have h: "1 < length sample_sentences"
    by (simp add: sample_sentences_def)
  have len: "length (sample_sentences ! 1) = 21"
    by (simp add: sample_sentences_def)
  have k: "''key'' \<in> set score_keywords" "''key'' \<in> set important_words"
    by (simp_all add: score_keywords_def important_words_def)
  show ?thesis
    using h len k keyword_monotone [OF h, of "''key''"]
    by (simp add: length_bonus_def simple_length_bonus_def)
qed

section \<open>The compression footnote\<close>

lemma length_join: "length sep = length sep' \<Longrightarrow> length (join sep xs) = length (join sep' xs)"
  by (induction sep xs rule: join.induct) simp_all

lemma join_snoc: "xs \<noteq> [] \<Longrightarrow> join sep (xs @ [x]) = join sep xs @ sep @ x"
  by (induction sep xs rule: join.induct) simp_all

text \<open>
  C8 (amended). When at least one key sentence is given, the summary renderer appends the
  compression footnote exactly when the original text is longer than 1000 characters: the
  rendering is then the footnote-free rendering followed by a blank line and the footnote,
  which states the length of the original and the length of the footnote-free rendering.
  For originals of 1000 characters or fewer the rendering has no footnote. With no key
  sentence the renderer returns its fixed message without a footnote, whatever the length
  of the original.
\<close>

theorem compression_footnote:
  "create_summary key_sentences original_text =
     (if key_sentences = [] then
        ''Unable to generate summary - please provide more substantial text.''
      else if 1000 < length original_text then
        create_summary key_sentences [] @ [newline, newline]
          @ ''*This summary condensed '' @ show_nat (length original_text)
          @ '' characters into '' @ show_nat (length (create_summary key_sentences []))
          @ '' characters.*''
      else create_summary key_sentences [])"
proof (cases "key_sentences = []")
  case True
  then show ?thesis by (simp add: create_summary_def)
next
  case False
  define parts where "parts =
    (if 1 < length key_sentences then [''**Key Points:**''] else []) @
      map (\<lambda>sentence.
             let sentence = strip sentence;
                 sentence = (if \<not> ends_sentence sentence then sentence @ ''.'' else sentence)
             in if 1 < length key_sentences then bullet # '' '' @ sentence else sentence)
        key_sentences"
  have ne: "parts \<noteq> []" using False by (simp add: parts_def)
  have short: "create_summary key_sentences [] = join [newline] parts"
    using False by (simp add: create_summary_def parts_def Let_def)
  have len: "length (join '' '' parts) = length (join [newline] parts)"
    by (rule length_join) simp
  show ?thesis
  proof (cases "1000 < length original_text")
    case True
    have "create_summary key_sentences original_text
        = join [newline] (parts @ [[newline] @ ''*This summary condensed ''
            @ show_nat (length original_text) @ '' characters into ''
            @ show_nat (length (join '' '' parts)) @ '' characters.*''])"
      using False True by (simp add: create_summary_def parts_def Let_def)
    then show ?thesis
      using False True ne by (simp add: join_snoc short len)
  next
    case long: False
    have "create_summary key_sentences original_text = join [newline] parts"
      using False long by (simp add: create_summary_def parts_def Let_def)
    then show ?thesis using False long by (simp add: short)
  qed
qed

text \<open>An original of 1001 characters and no key sentence: no footnote is appended.\<close>

theorem compression_footnote_counterexample:
  "1000 < length (replicate 1001 (CHR ''a''))
   \<and> create_summary [] (replicate 1001 (CHR ''a''))
       = ''Unable to generate summary - please provide more substantial text.''"
  by (simp add: create_summary_def)

section \<open>Texts that are already short\<close>

lemma isspace_not_terminator: "isspace c \<Longrightarrow> \<not> is_terminator c"
  by (auto simp: isspace_def space_chars_def is_terminator_def)

lemma re_split_acc_prepend:
  "re_split_acc (a @ cur) s
     = (a @ hd (re_split_acc cur s)) # tl (re_split_acc cur s)"
proof (induction cur s arbitrary: a rule: re_split_acc.induct)
  case (1 cur)
  show ?case by simp
next
  case (2 cur c cs)
  show ?case
  proof (cases "is_terminator c")
    case True
    then show ?thesis by simp
  next
    case False
    then show ?thesis using "2.IH"(2) [OF False, of a] by simp
  qed
qed

lemma re_split_acc_neq_Nil [simp]: "re_split_acc cur s \<noteq> []"
  by (induction cur s rule: re_split_acc.induct) simp_all

lemma re_split_acc_leading:
  "\<forall>c \<in> set w. \<not> is_terminator c \<Longrightarrow> re_split_acc cur (w @ s) = re_split_acc (cur @ w) s"
  by (induction w arbitrary: cur) simp_all

lemma dropWhile_append_none:
  "\<forall>c \<in> set w. \<not> P c \<Longrightarrow> dropWhile P (cs @ w) = dropWhile P cs @ w"
  by (induction cs) (simp_all add: dropWhile_eq_self_iff hd_in_set)

lemma re_split_acc_trailing:
  "\<forall>c \<in> set w. \<not> is_terminator c \<Longrightarrow>
     re_split_acc cur (s @ w)
       = butlast (re_split_acc cur s) @ [last (re_split_acc cur s) @ w]"
proof (induction cur s rule: re_split_acc.induct)
  case (1 cur)
  then show ?case using re_split_acc_leading [of w cur "[]"] by simp
next
  case (2 cur c cs)
  then show ?case by (simp add: dropWhile_append_none)
qed

lemma strip_leading: "\<forall>c \<in> set w. isspace c \<Longrightarrow> strip (w @ p) = strip p"
  by (simp add: strip_def dropWhile_append2)

lemma strip_trailing:
  assumes w: "\<forall>c \<in> set w. isspace c"
  shows "strip (p @ w) = strip p"
proof (cases "\<forall>c \<in> set p. isspace c")
  case True
  have "dropWhile isspace (p @ w) = []" and "dropWhile isspace p = []"
    using w True by (auto simp: dropWhile_eq_Nil_conv)
  then show ?thesis unfolding strip_def by (simp only:)
next
  case False
  then have "dropWhile isspace (p @ w) = dropWhile isspace p @ w"
    by (auto simp: dropWhile_append1)
  moreover have "dropWhile isspace (rev w @ rev (dropWhile isspace p))
      = dropWhile isspace (rev (dropWhile isspace p))"
    by (rule dropWhile_append2) (use w in auto)
  ultimately show ?thesis by (simp add: strip_def)
qed

lemma map_strip_split_leading:
  assumes "\<forall>c \<in> set w. isspace c"
  shows "map strip (re_split (w @ s)) = map strip (re_split s)"
proof -
  have nt: "\<forall>c \<in> set w. \<not> is_terminator c"
    using assms isspace_not_terminator by blast
  have "re_split (w @ s) = (w @ hd (re_split s)) # tl (re_split s)"
    unfolding re_split_def
    using re_split_acc_leading [OF nt, of "[]" s] re_split_acc_prepend [of w "[]" s] by simp
  then have "map strip (re_split (w @ s)) = strip (hd (re_split s)) # map strip (tl (re_split s))"
    by (simp add: strip_leading [OF assms])
  also have "\<dots> = map strip (hd (re_split s) # tl (re_split s))"
    by simp
  also have "hd (re_split s) # tl (re_split s) = re_split s"
    by (simp add: re_split_def)
  finally show ?thesis .
qed

lemma map_strip_split_trailing:
  assumes "\<forall>c \<in> set w. isspace c"
  shows "map strip (re_split (s @ w)) = map strip (re_split s)"
proof -
  have nt: "\<forall>c \<in> set w. \<not> is_terminator c"
    using assms isspace_not_terminator by blast
  have "re_split (s @ w) = butlast (re_split s) @ [last (re_split s) @ w]"
    unfolding re_split_def by (rule re_split_acc_trailing [OF nt])
  then have "map strip (re_split (s @ w))
      = map strip (butlast (re_split s)) @ [strip (last (re_split s))]"
    by (simp add: strip_trailing [OF assms])
  also have "\<dots> = map strip (butlast (re_split s) @ [last (re_split s)])"
    by simp
  also have "butlast (re_split s) @ [last (re_split s)] = re_split s"
    by (simp add: re_split_def)
  finally show ?thesis .
qed

lemma strip_decompose:
  "\<exists>w1 w2. text = w1 @ strip text @ w2 \<and> (\<forall>c \<in> set w1. isspace c) \<and> (\<forall>c \<in> set w2. isspace c)"
proof -
  let ?t = "dropWhile isspace text"
  have a: "text = takeWhile isspace text @ ?t" by simp
  have "rev ?t = takeWhile isspace (rev ?t) @ dropWhile isspace (rev ?t)" by simp
  then have "rev (rev ?t) = rev (takeWhile isspace (rev ?t) @ dropWhile isspace (rev ?t))"
    by (rule arg_cong)
  then have "?t = rev (dropWhile isspace (rev ?t)) @ rev (takeWhile isspace (rev ?t))"
    by (simp only: rev_append rev_rev_ident)
  then have b: "?t = strip text @ rev (takeWhile isspace (rev ?t))"
    by (simp add: strip_def)
  note a
  also note b
  finally have "text = takeWhile isspace text @ strip text @ rev (takeWhile isspace (rev ?t))" .
  moreover have "\<forall>c \<in> set (takeWhile isspace text). isspace c"
    by (auto dest: set_takeWhileD)
  moreover have "\<forall>c \<in> set (rev (takeWhile isspace (rev ?t))). isspace c"
    by (auto dest: set_takeWhileD)
  ultimately show ?thesis by (intro exI conjI)
qed

lemma map_strip_split_strip: "map strip (re_split (strip text)) = map strip (re_split text)"
proof -
  obtain w1 w2 where t: "text = w1 @ strip text @ w2"
    and w1: "\<forall>c \<in> set w1. isspace c" and w2: "\<forall>c \<in> set w2. isspace c"
    using strip_decompose by blast
  have "map strip (re_split text) = map strip (re_split (w1 @ strip text @ w2))"
    using t by simp
  also have "\<dots> = map strip (re_split (strip text @ w2))"
    by (rule map_strip_split_leading [OF w1])
  also have "\<dots> = map strip (re_split (strip text))"
    by (rule map_strip_split_trailing [OF w2])
  finally show ?thesis by simp
qed

lemma split_sentences_strip [simp]: "split_sentences (strip text) = split_sentences text"
  by (simp add: split_sentences_def map_strip_split_strip)

lemma split_into_sentences_strip [simp]:
  "split_into_sentences (strip text) = split_into_sentences text"
  by (simp add: split_into_sentences_def map_strip_split_strip)

text \<open>
  C3 (amended). For every input text with fewer than 3 qualifying sentences, summarization
  returns a label, a blank line and the text with its surrounding whitespace stripped,
  never a truncated or reordered variant of it. The label is "already concise" only when
  the stripped text has at least 200 characters (conversational\_ai.py) or at least 100
  characters (simple\_ai\_chat.py); a shorter text is labeled "already quite brief",
  respectively "already brief".
\<close>

theorem already_concise:
  "(length (split_into_sentences text) < 3 \<longrightarrow>
      summarize_text text
        = (if length (strip text) < 200 then ''This text is already quite brief. Here it is:''
           else ''This text is already concise:'') @ [newline, newline] @ strip text)
   \<and> (length (split_sentences text) < 3 \<longrightarrow>
      simple_create_summary text
        = (if length (strip text) < 100 then ''This text is already brief:''
           else ''This text is already concise:'') @ [newline, newline] @ strip text)"
proof (intro conjI impI)
  assume "length (split_into_sentences text) < 3"
  then have "length (split_into_sentences (strip text)) \<le> 3"
    by (simp add: split_into_sentences_strip)
  then show "summarize_text text
        = (if length (strip text) < 200 then ''This text is already quite brief. Here it is:''
           else ''This text is already concise:'') @ [newline, newline] @ strip text"
    by (simp add: summarize_text_def Let_def del: split_into_sentences_strip)
next
  assume "length (split_sentences text) < 3"
  then have "length (split_sentences (strip text)) \<le> 2"
    by (simp add: split_sentences_strip)
  then show "simple_create_summary text
        = (if length (strip text) < 100 then ''This text is already brief:''
           else ''This text is already concise:'') @ [newline, newline] @ strip text"
    by (simp add: simple_create_summary_def Let_def del: split_sentences_strip)
qed

lemma sample_text_facts:
  "length (split_into_sentences sample_text) = 2"
  "length (split_sentences sample_text) = 2"
  "strip sample_text = sample_text"
  "length sample_text = 122"
  by code_simp+

theorem already_concise_witness:
  "length (split_into_sentences sample_text) < 3
   \<and> length (split_sentences sample_text) < 3
   \<and> summarize_text sample_text
       = ''This text is already quite brief. Here it is:'' @ [newline, newline] @ sample_text
   \<and> simple_create_summary sample_text
       = ''This text is already concise:'' @ [newline, newline] @ sample_text"
  using already_concise [of sample_text]
  by (simp add: sample_text_facts)

text \<open>
  A short text with no qualifying sentence: both summarizers label it brief, not concise,
  and return it without its surrounding blanks.
\<close>

theorem already_concise_counterexample:
  "length (split_sentences '' Hi there. '') = 0
   \<and> length (split_into_sentences '' Hi there. '') = 0
   \<and> simple_create_summary '' Hi there. ''
       = ''This text is already brief:'' @ [newline, newline] @ ''Hi there.''
   \<and> summarize_text '' Hi there. ''
       = ''This text is already quite brief. Here it is:'' @ [newline, newline] @ ''Hi there.''"
  by code_simp

section \<open>Math requests reach the evaluator filtered\<close>

lemma concat_findall_acc: "concat (findall_acc cur s) = cur @ filter is_math_char s"
  by (induction s arbitrary: cur) simp_all

lemma findall_acc_Nil_iff:
  "findall_acc cur s = [] \<longleftrightarrow> cur = [] \<and> filter is_math_char s = []"
  by (induction s arbitrary: cur) auto

lemma set_strip_subset: "set (strip s) \<subseteq> set s"
proof -
  have "set (strip s) \<subseteq> set (dropWhile isspace s)"
    unfolding strip_def using set_dropWhileD [of _ isspace "rev (dropWhile isspace s)"] by auto
  then show ?thesis using set_dropWhileD [of _ isspace s] by blast
qed

lemma math_chars_strip_filter: "list_all is_math_char (strip (filter is_math_char request))"
  using set_strip_subset [of "filter is_math_char request"] by (auto simp: list_all_iff)

text \<open>
  C10 (amended). For every user input, the math-request handler deletes from the input
  every character outside the class \<open>[\d+\-*/().\s]\<close>, strips the rest and, exactly when
  something remains, passes it to the dynamic evaluator. The string passed therefore
  always matches \<open>^[\d+\-*/().\s]+$\<close>; but an input that contains letters or other
  characters is not rejected: what remains of it is evaluated. A failure of the evaluation
  is absorbed into a help message.
\<close>

theorem math_request_evaluation:
  "handle_math_request py_eval request =
     (let expr = strip (filter is_math_char request) in
      if expr = [] then math_help
      else case py_eval expr of
             Inr result \<Rightarrow> ''The answer is: **'' @ result @ ''**'' @ [newline, newline]
                             @ ''Calculation: '' @ expr @ '' = '' @ result
           | Inl e \<Rightarrow> math_help)
   \<and> handle_math py_eval request =
     (let expr = strip (filter is_math_char request) in
      if expr = [] then math_try
      else case py_eval expr of
             Inr result \<Rightarrow> ''**Answer:** '' @ result @ [newline, newline]
                             @ ''Calculation: '' @ expr @ '' = '' @ result
           | Inl e \<Rightarrow> ''I can help with calculations! What would you like me to calculate?'')
   \<and> re_match_math (strip (filter is_math_char request))
       = (strip (filter is_math_char request) \<noteq> [])"
proof -
  have m: "re_match_math (strip (filter is_math_char request))
       = (strip (filter is_math_char request) \<noteq> [])"
    by (simp add: re_match_math_def math_chars_strip_filter)
  have e: "filter is_math_char request = [] \<Longrightarrow> strip (filter is_math_char request) = []"
    by (simp add: strip_def)
  show ?thesis
    using m e
    by (auto simp: handle_math_request_def handle_math_def re_findall_math_def Let_def
        concat_findall_acc findall_acc_Nil_iff)
qed

text \<open>
  A request with letters in it: the evaluator receives \<open>15 + 25\<close> and its value is
  returned.
\<close>

theorem math_request_counterexample:
  "handle_math_request
     (\<lambda>expr. if expr = ''15 + 25'' then Inr ''40'' else Inl (Exn ''SyntaxError''))
     ''Calculate 15 + 25''
     = ''The answer is: **40**'' @ [newline, newline] @ ''Calculation: 15 + 25 = 40''
   \<and> handle_math
     (\<lambda>expr. if expr = ''15 + 25'' then Inr ''40'' else Inl (Exn ''SyntaxError''))
     ''Calculate 15 + 25''
     = ''**Answer:** 40'' @ [newline, newline] @ ''Calculation: 15 + 25 = 40''"
  by code_simp

section \<open>Deduplication of web snippets\<close>

lemma contains_refl [simp]: "contains s s"
  by (simp add: contains_sublist)

lemma contains_trans: "contains a b \<Longrightarrow> contains b c \<Longrightarrow> contains a c"
  unfolding contains_sublist by (rule sublist_order.order_trans)

lemma unique_snippets_append:
  "unique_snippets acc (xs @ ys) = unique_snippets (unique_snippets acc xs) ys"
  by (induction xs arbitrary: acc) simp_all

lemma unique_snippets_sorted:
  "sorted_wrt (\<lambda>e l. \<not> contains (lower l) (lower e)) acc \<Longrightarrow>
   sorted_wrt (\<lambda>e l. \<not> contains (lower l) (lower e)) (unique_snippets acc xs)"
  by (induction xs arbitrary: acc) (auto simp: sorted_wrt_append list_ex_iff)

lemma unique_snippets_keeps: "set acc \<subseteq> set (unique_snippets acc xs)"
proof (induction xs arbitrary: acc)
  case Nil
  show ?case by simp
next
  case (Cons x xs)
  show ?case using Cons [of acc] Cons [of "acc @ [x]"] by auto
qed

lemma unique_snippets_covers:
  "\<forall>x \<in> set xs. \<exists>e \<in> set (unique_snippets acc xs). contains (lower x) (lower e)"
proof (induction xs arbitrary: acc)
  case Nil
  show ?case by simp
next
  case (Cons x xs)
  show ?case
  proof (cases "list_ex (\<lambda>existing. contains (lower x) (lower existing)) acc")
    case True
    then obtain e where "e \<in> set acc" "contains (lower x) (lower e)"
      by (auto simp: list_ex_iff)
    then have "\<exists>e \<in> set (unique_snippets acc xs). contains (lower x) (lower e)"
      using unique_snippets_keeps [of acc xs] by blast
    with True Cons [of acc] show ?thesis by simp
  next
    case False
    have "x \<in> set (unique_snippets (acc @ [x]) xs)"
      using unique_snippets_keeps [of "acc @ [x]" xs] by auto
    then have "\<exists>e \<in> set (unique_snippets (acc @ [x]) xs). contains (lower x) (lower e)"
      using contains_refl by blast
    with False Cons [of "acc @ [x]"] show ?thesis by simp
  qed
qed

lemma unique_snippets_first: "xs \<noteq> [] \<Longrightarrow> unique_snippets [] xs \<noteq> []"
proof (cases xs)
  case Nil
  then show "xs \<noteq> [] \<Longrightarrow> ?thesis" by simp
next
  case (Cons x ys)
  have "x \<in> set (unique_snippets [x] ys)"
    using unique_snippets_keeps [of "[x]" ys] by simp
  then show ?thesis using Cons by auto
qed

lemma unique_snippets_within: "set (unique_snippets acc xs) \<subseteq> set acc \<union> set xs"
proof (induction xs arbitrary: acc)
  case Nil
  show ?case by simp
next
  case (Cons x xs)
  show ?case using Cons [of acc] Cons [of "acc @ [x]"] by auto
qed

text \<open>
  Testing a snippet against the kept snippets amounts to testing it against every snippet
  met so far, because a dropped snippet lies inside a kept one.
\<close>

lemma unique_snippets_seen:
  "list_ex (\<lambda>existing. contains (lower x) (lower existing)) (unique_snippets [] xs)
   \<longleftrightarrow> (\<exists>i<length xs. contains (lower x) (lower (xs ! i)))"
proof
  assume "list_ex (\<lambda>existing. contains (lower x) (lower existing)) (unique_snippets [] xs)"
  then obtain e where e: "e \<in> set (unique_snippets [] xs)" "contains (lower x) (lower e)"
    by (auto simp: list_ex_iff)
  have "e \<in> set xs"
    using e(1) unique_snippets_within [of "[]" xs] by auto
  then obtain i where "i < length xs" "xs ! i = e"
    by (auto simp: in_set_conv_nth)
  with e(2) show "\<exists>i<length xs. contains (lower x) (lower (xs ! i))"
    by blast
next
  assume "\<exists>i<length xs. contains (lower x) (lower (xs ! i))"
  then obtain i where i: "i < length xs" "contains (lower x) (lower (xs ! i))"
    by blast
  have "xs ! i \<in> set xs"
    using i(1) by simp
  then obtain e where e: "e \<in> set (unique_snippets [] xs)" "contains (lower (xs ! i)) (lower e)"
    using unique_snippets_covers [of xs "[]"] by blast
  have "contains (lower x) (lower e)"
    using i(2) e(2) by (rule contains_trans)
  with e(1) show "list_ex (\<lambda>existing. contains (lower x) (lower existing))
      (unique_snippets [] xs)"
    by (auto simp: list_ex_iff)
qed

lemma unique_snippets_exact:
  "unique_snippets [] xs
     = map ((!) xs)
         (filter (\<lambda>j. \<not> (\<exists>i<j. contains (lower (xs ! j)) (lower (xs ! i))))
            [0..<length xs])"
proof (induction xs rule: rev_induct)
  case Nil
  show ?case by simp
next
  case (snoc x xs)
  define fresh where
    "fresh = (\<lambda>ys j. \<not> (\<exists>i<j. contains (lower (ys ! j)) (lower ((ys :: string list) ! i))))"
  define u where "u = unique_snippets [] xs"
  have IH: "u = map ((!) xs) (filter (fresh xs) [0..<length xs])"
    unfolding u_def fresh_def by (rule snoc.IH)
  have a: "filter (fresh (xs @ [x])) [0..<length xs] = filter (fresh xs) [0..<length xs]"
    by (rule filter_cong) (auto simp: fresh_def nth_append)
  have b: "map ((!) (xs @ [x])) (filter (fresh xs) [0..<length xs])
           = map ((!) xs) (filter (fresh xs) [0..<length xs])"
    by (rule map_cong) (auto simp: nth_append)
  have c: "fresh (xs @ [x]) (length xs)
           \<longleftrightarrow> \<not> list_ex (\<lambda>existing. contains (lower x) (lower existing)) u"
    unfolding u_def unique_snippets_seen fresh_def by (auto simp: nth_append)
  have "map ((!) (xs @ [x])) (filter (fresh (xs @ [x])) [0..<length (xs @ [x])])
        = map ((!) (xs @ [x])) (filter (fresh (xs @ [x])) [0..<length xs])
          @ (if fresh (xs @ [x]) (length xs) then [x] else [])"
    by simp
  also have "\<dots> = u @ (if fresh (xs @ [x]) (length xs) then [x] else [])"
    unfolding a b IH [symmetric] ..
  also have "\<dots> = unique_snippets [] (xs @ [x])"
    unfolding unique_snippets_append u_def [symmetric] c by simp
  finally show ?case
    unfolding fresh_def by simp
qed

text \<open>
  C4 (amended). A snippet is kept exactly when its text is not a case-insensitive
  substring of a snippet met before it, kept or dropped. So a snippet whose text is a
  case-insensitive substring of a snippet met earlier is dropped: handling it leaves the
  list of kept snippets unchanged, and no kept snippet is contained in a kept snippet
  before it. The converse order is not handled: a snippet that contains an earlier,
  shorter one is dropped only when it is itself a substring of a snippet met before it, so
  that of two snippets extracted alone, the second is dropped when it is a substring of
  the first and both are kept otherwise. The result is the numbered list of the first 3
  kept snippets, and there is one whenever a snippet was extracted.
\<close>

theorem snippet_deduplication:
  "(\<forall>a b. a < b \<and> b < length (unique_snippets [] snippets) \<longrightarrow>
      \<not> contains (lower (unique_snippets [] snippets ! b))
                 (lower (unique_snippets [] snippets ! a)))
   \<and> (\<forall>i j. i < j \<and> j < length snippets
            \<and> contains (lower (snippets ! j)) (lower (snippets ! i)) \<longrightarrow>
      unique_snippets [] (take (Suc j) snippets) = unique_snippets [] (take j snippets))
   \<and> extract_search_snippets soup =
       (if collect_snippets soup = [] then None
        else Some (strip (''**Key Information Found:**'' @ [newline] @
               concat (map (\<lambda>(i, snippet). show_nat i @ ''. '' @ snippet @ [newline])
                 (enumerate 1 (take 3 (unique_snippets [] (collect_snippets soup))))))))
   \<and> length (take 3 (unique_snippets [] (collect_snippets soup))) \<le> 3
   \<and> unique_snippets [] snippets
       = map ((!) snippets)
           (filter (\<lambda>j. \<not> (\<exists>i<j. contains (lower (snippets ! j)) (lower (snippets ! i))))
              [0..<length snippets])
   \<and> unique_snippets [] [first, second]
       = (if contains (lower second) (lower first) then [first] else [first, second])"
proof (intro conjI allI impI)
  fix a b
  assume "a < b \<and> b < length (unique_snippets [] snippets)"
  moreover have "sorted_wrt (\<lambda>e l. \<not> contains (lower l) (lower e)) (unique_snippets [] snippets)"
    by (rule unique_snippets_sorted) simp
  ultimately show "\<not> contains (lower (unique_snippets [] snippets ! b))
                 (lower (unique_snippets [] snippets ! a))"
    by (simp add: sorted_wrt_iff_nth_less)
next
  fix i j
  assume h: "i < j \<and> j < length snippets
            \<and> contains (lower (snippets ! j)) (lower (snippets ! i))"
  let ?u = "unique_snippets [] (take j snippets)"
  have "snippets ! i \<in> set (take j snippets)"
    using h by (auto simp: in_set_conv_nth intro!: exI [of _ i])
  then obtain e where e: "e \<in> set ?u" "contains (lower (snippets ! i)) (lower e)"
    using unique_snippets_covers [of "take j snippets" "[]"] by blast
  have "contains (lower (snippets ! j)) (lower e)"
    using h e(2) contains_trans by blast
  with e(1) have "list_ex (\<lambda>existing. contains (lower (snippets ! j)) (lower existing)) ?u"
    by (auto simp: list_ex_iff)
  moreover have "take (Suc j) snippets = take j snippets @ [snippets ! j]"
    using h by (simp add: take_Suc_conv_app_nth)
  ultimately show "unique_snippets [] (take (Suc j) snippets) = ?u"
    by (simp add: unique_snippets_append)
next
  show "extract_search_snippets soup =
       (if collect_snippets soup = [] then None
        else Some (strip (''**Key Information Found:**'' @ [newline] @
               concat (map (\<lambda>(i, snippet). show_nat i @ ''. '' @ snippet @ [newline])
                 (enumerate 1 (take 3 (unique_snippets [] (collect_snippets soup))))))))"
    using unique_snippets_first [of "collect_snippets soup"]
    by (simp add: extract_search_snippets_def Let_def)
next
  show "length (take 3 (unique_snippets [] (collect_snippets soup))) \<le> 3"
    by simp
next
  show "unique_snippets [] snippets
       = map ((!) snippets)
           (filter (\<lambda>j. \<not> (\<exists>i<j. contains (lower (snippets ! j)) (lower (snippets ! i))))
              [0..<length snippets])"
    by (rule unique_snippets_exact)
next
  show "unique_snippets [] [first, second]
       = (if contains (lower second) (lower first) then [first] else [first, second])"
    by simp
qed

lemma sample_unique:
  "unique_snippets [] [snippet_a, snippet_b, snippet_c] = [snippet_a, snippet_b]"
  "unique_snippets [] [snippet_a, snippet_b] = [snippet_a, snippet_b]"
  "contains (lower snippet_c) (lower snippet_a)"
  "\<not> contains (lower snippet_b) (lower snippet_a)"
  "contains (lower snippet_a) (lower snippet_b)"
  by code_simp+

theorem snippet_deduplication_witness:
  "\<not> contains (lower ([snippet_a, snippet_b] ! 1)) (lower ([snippet_a, snippet_b] ! 0))
   \<and> contains (lower ([snippet_a, snippet_b, snippet_c] ! 2))
        (lower ([snippet_a, snippet_b, snippet_c] ! 0))
   \<and> unique_snippets [] (take 3 [snippet_a, snippet_b, snippet_c])
       = unique_snippets [] (take 2 [snippet_a, snippet_b, snippet_c])"
proof -
  have d: "\<forall>a b. a < b \<and> b < length (unique_snippets [] [snippet_a, snippet_b, snippet_c]) \<longrightarrow>
      \<not> contains (lower (unique_snippets [] [snippet_a, snippet_b, snippet_c] ! b))
                 (lower (unique_snippets [] [snippet_a, snippet_b, snippet_c] ! a))"
    and e: "\<forall>i j. i < j \<and> j < length [snippet_a, snippet_b, snippet_c]
            \<and> contains (lower ([snippet_a, snippet_b, snippet_c] ! j))
                 (lower ([snippet_a, snippet_b, snippet_c] ! i)) \<longrightarrow>
      unique_snippets [] (take (Suc j) [snippet_a, snippet_b, snippet_c])
        = unique_snippets [] (take j [snippet_a, snippet_b, snippet_c])"
    using snippet_deduplication [of "[snippet_a, snippet_b, snippet_c]" sample_soup]
    by blast+
  have "\<not> contains (lower ([snippet_a, snippet_b] ! 1)) (lower ([snippet_a, snippet_b] ! 0))"
    using d [rule_format, of 0 1] unfolding sample_unique(1) by simp
  moreover have c: "contains (lower ([snippet_a, snippet_b, snippet_c] ! 2))
        (lower ([snippet_a, snippet_b, snippet_c] ! 0))"
    by (simp add: sample_unique(3))
  moreover have "unique_snippets [] (take 3 [snippet_a, snippet_b, snippet_c])
       = unique_snippets [] (take 2 [snippet_a, snippet_b, snippet_c])"
    using e [rule_format, of 0 2] c by (simp only: numeral_2_eq_2 numeral_3_eq_3) simp
  ultimately show ?thesis by blast
qed

text \<open>
  Of two nested snippets in the converse order, the shorter one may itself have been
  dropped, so that only the longer one is kept.
\<close>

lemma sample_nested:
  "contains (lower snippet_a) (lower snippet_d)"
  "\<not> contains (lower snippet_b) (lower snippet_d)"
  "unique_snippets [] [snippet_d, snippet_a, snippet_b] = [snippet_d, snippet_b]"
  by code_simp+

text \<open>
  The first snippet is a substring of the second one and is met first: both are returned.
\<close>

theorem snippet_deduplication_counterexample:
  "contains (lower snippet_a) (lower snippet_b)
   \<and> extract_search_snippets sample_soup
       = Some (''**Key Information Found:**'' @ [newline]
               @ ''1. '' @ snippet_a @ [newline] @ ''2. '' @ snippet_b)"
  by code_simp

section \<open>Answer compilation yields a text unless the console fails\<close>

lemma compile_nonempty:
  "compile_comprehensive_response py_title py_str now query sources \<noteq> []"
  by (cases sources) (simp_all add: compile_comprehensive_response_def)

lemma search_wikipedia_detailed_raises:
  "search_wikipedia_detailed console describe web query = Inl e \<Longrightarrow>
   \<exists>failure. wikipedia_body web query = Inl failure
     \<and> console (''Wikipedia search error: '' @ describe failure) = Inl e"
  by (auto simp: search_wikipedia_detailed_def bind_exn_def split: sum.splits)

lemma search_duckduckgo_detailed_raises:
  "search_duckduckgo_detailed console describe web query = Inl e \<Longrightarrow>
   \<exists>failure. duckduckgo_body web query = Inl failure
     \<and> console (''DuckDuckGo search error: '' @ describe failure) = Inl e"
  by (auto simp: search_duckduckgo_detailed_def bind_exn_def split: sum.splits)

lemma search_news_raises:
  "search_news console describe web query = Inl e \<Longrightarrow>
   \<exists>failure. news_body web query = Inl failure
     \<and> console (''News search error: '' @ describe failure) = Inl e"
  by (auto simp: search_news_def bind_exn_def split: sum.splits)

lemma search_multiple_sources_raises:
  assumes "search_multiple_sources console describe web query = Inl e"
  shows "search_duckduckgo_detailed console describe web query = Inl e
         \<or> search_news console describe web query = Inl e"
proof (cases "search_duckduckgo_detailed console describe web query")
  case (Inl e')
  with assms have "e' = e"
    by (simp add: search_multiple_sources_def bind_exn_def)
  with Inl show ?thesis by simp
next
  case (Inr ddg_result)
  with assms have "search_news console describe web query = Inl e"
    by (simp add: search_multiple_sources_def bind_exn_def Let_def
        split: if_splits sum.splits)
  then show ?thesis by simp
qed

lemma get_comprehensive_answer_raises:
  assumes "get_comprehensive_answer console describe web py_title py_str now query = Inl e"
  shows "console ([glyph_search] @ '' Researching: '' @ query) = Inl e
     \<or> console ([glyph_books] @ '' Gathering information from multiple sources...'') = Inl e
     \<or> (\<exists>failure. wikipedia_body web query = Inl failure
           \<and> console (''Wikipedia search error: '' @ describe failure) = Inl e)
     \<or> (\<exists>failure. duckduckgo_body web query = Inl failure
           \<and> console (''DuckDuckGo search error: '' @ describe failure) = Inl e)
     \<or> (\<exists>failure. news_body web query = Inl failure
           \<and> console (''News search error: '' @ describe failure) = Inl e)"
proof -
  consider
    "console ([glyph_search] @ '' Researching: '' @ query) = Inl e"
  | "console ([glyph_books] @ '' Gathering information from multiple sources...'') = Inl e"
  | "search_wikipedia_detailed console describe web query = Inl e"
  | "search_multiple_sources console describe web query = Inl e"
    using assms
    by (simp add: get_comprehensive_answer_def bind_exn_def Let_def split: sum.splits)
  then show ?thesis
  proof cases
    case 1
    then show ?thesis by simp
  next
    case 2
    then show ?thesis by simp
  next
    case 3
    then show ?thesis
      using search_wikipedia_detailed_raises [of console describe web query e] by blast
  next
    case 4
    then show ?thesis
      using search_multiple_sources_raises [of console describe web query e]
        search_duckduckgo_detailed_raises [of console describe web query e]
        search_news_raises [of console describe web query e]
      by blast
  qed
qed

lemma get_comprehensive_answer_returns:
  assumes "get_comprehensive_answer console describe web py_title py_str now query
             = Inr rendered"
  shows "rendered \<noteq> []"
proof -
  have "\<exists>sources. rendered = compile_comprehensive_response py_title py_str now query sources"
    using assms
    by (auto simp: get_comprehensive_answer_def bind_exn_def Let_def split: sum.splits)
  then show ?thesis
    by (auto simp: compile_nonempty)
qed

lemma get_comprehensive_answer_silent:
  assumes "console ([glyph_search] @ '' Researching: '' @ query) = Inr ()"
    and "console ([glyph_books] @ '' Gathering information from multiple sources...'') = Inr ()"
    and "get_built_in_knowledge query = None"
    and "search_wikipedia_detailed console describe web query = Inr None"
    and "search_duckduckgo_detailed console describe web query = Inr None"
    and "search_news console describe web query = Inr None"
  shows "get_comprehensive_answer console describe web py_title py_str now query
           = Inr (compile_comprehensive_response py_title py_str now query [])"
  using assms
  by (simp add: get_comprehensive_answer_def bind_exn_def Let_def search_multiple_sources_def)

text \<open>
  C2 (amended). For every query string, the empty string included, and every list of
  sources, \<open>compile_comprehensive_response\<close> returns a non-empty text and has no raising
  step. \<open>get_comprehensive_answer\<close> writes to the console outside any handler of its own:
  two progress lines before the providers are consulted, and one line in the handler of
  each provider that failed. Every text it returns is non-empty. Every exception that
  reaches its caller is the exception of one of these writes, so on a console that accepts
  every line it returns a non-empty text whatever the providers do. Conversely, when the
  write of a progress line or of a handler raises, that exception reaches the caller. When
  the progress lines are written and every provider returns no result, the text is the
  terminal message that names the unanswered query.
\<close>

theorem compilation_total:
  "compile_comprehensive_response py_title py_str now query sources \<noteq> []
   \<and> (get_comprehensive_answer console describe web py_title py_str now query = Inr rendered
        \<longrightarrow> rendered \<noteq> [])
   \<and> (get_comprehensive_answer console describe web py_title py_str now query = Inl e
        \<longrightarrow> console ([glyph_search] @ '' Researching: '' @ query) = Inl e
          \<or> console ([glyph_books] @ '' Gathering information from multiple sources...'')
              = Inl e
          \<or> (\<exists>failure. wikipedia_body web query = Inl failure
                \<and> console (''Wikipedia search error: '' @ describe failure) = Inl e)
          \<or> (\<exists>failure. duckduckgo_body web query = Inl failure
                \<and> console (''DuckDuckGo search error: '' @ describe failure) = Inl e)
          \<or> (\<exists>failure. news_body web query = Inl failure
                \<and> console (''News search error: '' @ describe failure) = Inl e))
   \<and> ((\<forall>line. console line = Inr ()) \<longrightarrow>
        (\<exists>text. get_comprehensive_answer console describe web py_title py_str now query
                   = Inr text \<and> text \<noteq> []))
   \<and> (console ([glyph_search] @ '' Researching: '' @ query) = Inl e \<longrightarrow>
        get_comprehensive_answer console describe web py_title py_str now query = Inl e)
   \<and> (console ([glyph_search] @ '' Researching: '' @ query) = Inr ()
        \<and> console ([glyph_books] @ '' Gathering information from multiple sources...'') = Inl e
        \<longrightarrow> get_comprehensive_answer console describe web py_title py_str now query = Inl e)
   \<and> (console ([glyph_search] @ '' Researching: '' @ query) = Inr ()
        \<and> console ([glyph_books] @ '' Gathering information from multiple sources...'') = Inr ()
        \<and> wikipedia_body web query = Inl failure
        \<and> console (''Wikipedia search error: '' @ describe failure) = Inl e
        \<longrightarrow> get_comprehensive_answer console describe web py_title py_str now query = Inl e)
   \<and> (console ([glyph_search] @ '' Researching: '' @ query) = Inr ()
        \<and> console ([glyph_books] @ '' Gathering information from multiple sources...'') = Inr ()
        \<and> search_wikipedia_detailed console describe web query = Inr found
        \<and> duckduckgo_body web query = Inl failure
        \<and> console (''DuckDuckGo search error: '' @ describe failure) = Inl e
        \<longrightarrow> get_comprehensive_answer console describe web py_title py_str now query = Inl e)
   \<and> (console ([glyph_search] @ '' Researching: '' @ query) = Inr ()
        \<and> console ([glyph_books] @ '' Gathering information from multiple sources...'') = Inr ()
        \<and> search_wikipedia_detailed console describe web query = Inr found
        \<and> search_duckduckgo_detailed console describe web query = Inr results
        \<and> list_ex (\<lambda>word. contains word (lower query)) news_words
        \<and> news_body web query = Inl failure
        \<and> console (''News search error: '' @ describe failure) = Inl e
        \<longrightarrow> get_comprehensive_answer console describe web py_title py_str now query = Inl e)
   \<and> (console ([glyph_search] @ '' Researching: '' @ query) = Inr ()
        \<and> console ([glyph_books] @ '' Gathering information from multiple sources...'') = Inr ()
        \<and> get_built_in_knowledge query = None
        \<and> search_wikipedia_detailed console describe web query = Inr None
        \<and> search_duckduckgo_detailed console describe web query = Inr None
        \<and> search_news console describe web query = Inr None \<longrightarrow>
        get_comprehensive_answer console describe web py_title py_str now query
          = Inr ([glyph_cross] @ '' I couldn't find comprehensive information about ''
                 @ [CHR 0x27] @ query @ [CHR 0x27]
                 @ ''. Try rephrasing your question or being more specific.''))"
proof (intro conjI impI)
  show "compile_comprehensive_response py_title py_str now query sources \<noteq> []"
    by (rule compile_nonempty)
next
  assume "get_comprehensive_answer console describe web py_title py_str now query
            = Inr rendered"
  then show "rendered \<noteq> []"
    by (rule get_comprehensive_answer_returns)
next
  assume "get_comprehensive_answer console describe web py_title py_str now query = Inl e"
  then show "console ([glyph_search] @ '' Researching: '' @ query) = Inl e
          \<or> console ([glyph_books] @ '' Gathering information from multiple sources...'')
              = Inl e
          \<or> (\<exists>failure. wikipedia_body web query = Inl failure
                \<and> console (''Wikipedia search error: '' @ describe failure) = Inl e)
          \<or> (\<exists>failure. duckduckgo_body web query = Inl failure
                \<and> console (''DuckDuckGo search error: '' @ describe failure) = Inl e)
          \<or> (\<exists>failure. news_body web query = Inl failure
                \<and> console (''News search error: '' @ describe failure) = Inl e)"
    by (rule get_comprehensive_answer_raises)
next
  assume writes: "\<forall>line. console line = Inr ()"
  show "\<exists>text. get_comprehensive_answer console describe web py_title py_str now query
                   = Inr text \<and> text \<noteq> []"
  proof (cases "get_comprehensive_answer console describe web py_title py_str now query")
    case (Inl e')
    then show ?thesis
      using get_comprehensive_answer_raises [OF Inl] writes by simp
  next
    case (Inr rendered')
    then show ?thesis
      using get_comprehensive_answer_returns [OF Inr] by simp
  qed
next
  assume "console ([glyph_search] @ '' Researching: '' @ query) = Inl e"
  then show "get_comprehensive_answer console describe web py_title py_str now query = Inl e"
    by (simp add: get_comprehensive_answer_def bind_exn_def)
next
  assume "console ([glyph_search] @ '' Researching: '' @ query) = Inr ()
        \<and> console ([glyph_books] @ '' Gathering information from multiple sources...'') = Inl e"
  then show "get_comprehensive_answer console describe web py_title py_str now query = Inl e"
    by (simp add: get_comprehensive_answer_def bind_exn_def)
next
  assume "console ([glyph_search] @ '' Researching: '' @ query) = Inr ()
        \<and> console ([glyph_books] @ '' Gathering information from multiple sources...'') = Inr ()
        \<and> wikipedia_body web query = Inl failure
        \<and> console (''Wikipedia search error: '' @ describe failure) = Inl e"
  then show "get_comprehensive_answer console describe web py_title py_str now query = Inl e"
    by (simp add: get_comprehensive_answer_def search_wikipedia_detailed_def bind_exn_def
        Let_def)
next
  assume "console ([glyph_search] @ '' Researching: '' @ query) = Inr ()
        \<and> console ([glyph_books] @ '' Gathering information from multiple sources...'') = Inr ()
        \<and> search_wikipedia_detailed console describe web query = Inr found
        \<and> duckduckgo_body web query = Inl failure
        \<and> console (''DuckDuckGo search error: '' @ describe failure) = Inl e"
  then show "get_comprehensive_answer console describe web py_title py_str now query = Inl e"
    by (simp add: get_comprehensive_answer_def search_multiple_sources_def
        search_duckduckgo_detailed_def bind_exn_def Let_def)
next
  assume "console ([glyph_search] @ '' Researching: '' @ query) = Inr ()
        \<and> console ([glyph_books] @ '' Gathering information from multiple sources...'') = Inr ()
        \<and> search_wikipedia_detailed console describe web query = Inr found
        \<and> search_duckduckgo_detailed console describe web query = Inr results
        \<and> list_ex (\<lambda>word. contains word (lower query)) news_words
        \<and> news_body web query = Inl failure
        \<and> console (''News search error: '' @ describe failure) = Inl e"
  then show "get_comprehensive_answer console describe web py_title py_str now query = Inl e"
    by (simp add: get_comprehensive_answer_def search_multiple_sources_def
        search_news_def bind_exn_def Let_def)
next
  assume "console ([glyph_search] @ '' Researching: '' @ query) = Inr ()
        \<and> console ([glyph_books] @ '' Gathering information from multiple sources...'') = Inr ()
        \<and> get_built_in_knowledge query = None
        \<and> search_wikipedia_detailed console describe web query = Inr None
        \<and> search_duckduckgo_detailed console describe web query = Inr None
        \<and> search_news console describe web query = Inr None"
  then have "get_comprehensive_answer console describe web py_title py_str now query
           = Inr (compile_comprehensive_response py_title py_str now query [])"
    using get_comprehensive_answer_silent
      [of console query describe web py_title py_str now] by blast
  then show "get_comprehensive_answer console describe web py_title py_str now query
          = Inr ([glyph_cross] @ '' I couldn't find comprehensive information about ''
                 @ [CHR 0x27] @ query @ [CHR 0x27]
                 @ ''. Try rephrasing your question or being more specific.'')"
    by (simp add: compile_comprehensive_response_def)
qed

lemma built_in_empty_query: "get_built_in_knowledge [] = None"
  by code_simp

lemma sample_console_lines:
  "ascii_console ([glyph_search] @ '' Researching: '' @ []) = Inl (Exn ''UnicodeEncodeError'')"
  "closing_console ([glyph_search] @ '' Researching: '' @ []) = Inr ()"
  "closing_console ([glyph_books] @ '' Gathering information from multiple sources...'')
     = Inl (Exn ''BrokenPipeError'')"
  "late_console ([glyph_search] @ '' Researching: '' @ []) = Inr ()"
  "late_console ([glyph_books] @ '' Gathering information from multiple sources...'') = Inr ()"
  "late_console (''Wikipedia search error: '' @ exn_name (Exn ''ConnectionError''))
     = Inl (Exn ''BrokenPipeError'')"
  by code_simp+

lemma sample_providers:
  "search_wikipedia_detailed utf8_console exn_name silent_web [] = Inr None"
  "search_duckduckgo_detailed utf8_console exn_name silent_web [] = Inr None"
  "search_news utf8_console exn_name silent_web [] = Inr None"
  "search_wikipedia_detailed utf8_console exn_name unreachable_web [] = Inr None"
  "search_duckduckgo_detailed utf8_console exn_name unreachable_web [] = Inr None"
  "search_news utf8_console exn_name unreachable_web [] = Inr None"
  by (simp_all add: search_wikipedia_detailed_def search_duckduckgo_detailed_def
      search_news_def silent_web_def unreachable_web_def utf8_console_def bind_exn_def)

text \<open>
  The empty query: on a console that writes every line, with providers that find nothing
  and with providers that all fail; on a console that cannot encode the pictograph of the
  first line; on one that is gone after the first line; and on one that is gone when the
  handler of the failed encyclopedia lookup writes.
\<close>

theorem compilation_total_witness:
  "get_comprehensive_answer utf8_console exn_name silent_web keep_title list_text [] []
     = Inr ([glyph_cross] @ '' I couldn't find comprehensive information about ''
            @ [CHR 0x27] @ [CHR 0x27]
            @ ''. Try rephrasing your question or being more specific.'')
   \<and> get_comprehensive_answer utf8_console exn_name unreachable_web keep_title list_text
        [] []
     = Inr ([glyph_cross] @ '' I couldn't find comprehensive information about ''
            @ [CHR 0x27] @ [CHR 0x27]
            @ ''. Try rephrasing your question or being more specific.'')
   \<and> get_comprehensive_answer ascii_console exn_name silent_web keep_title list_text
        [] []
     = Inl (Exn ''UnicodeEncodeError'')
   \<and> get_comprehensive_answer closing_console exn_name silent_web keep_title list_text
        [] []
     = Inl (Exn ''BrokenPipeError'')
   \<and> get_comprehensive_answer late_console exn_name unreachable_web keep_title
        list_text [] []
     = Inl (Exn ''BrokenPipeError'')"
proof -
  have "get_comprehensive_answer utf8_console exn_name silent_web keep_title list_text
      [] []
     = Inr ([glyph_cross] @ '' I couldn't find comprehensive information about ''
            @ [CHR 0x27] @ [] @ [CHR 0x27]
            @ ''. Try rephrasing your question or being more specific.'')"
    using built_in_empty_query sample_providers(1,2,3)
      compilation_total [where console = utf8_console and describe = exn_name
        and query = "[]" and web = silent_web and py_title = keep_title
        and py_str = list_text and now = "[]" and sources = "[]"]
    by (simp add: utf8_console_def)
  moreover have "get_comprehensive_answer utf8_console exn_name unreachable_web keep_title
      list_text [] []
     = Inr ([glyph_cross] @ '' I couldn't find comprehensive information about ''
            @ [CHR 0x27] @ [] @ [CHR 0x27]
            @ ''. Try rephrasing your question or being more specific.'')"
    using built_in_empty_query sample_providers(4,5,6)
      compilation_total [where console = utf8_console and describe = exn_name
        and query = "[]" and web = unreachable_web and py_title = keep_title
        and py_str = list_text and now = "[]" and sources = "[]"]
    by (simp add: utf8_console_def)
  moreover have "get_comprehensive_answer ascii_console exn_name silent_web keep_title
      list_text [] [] = Inl (Exn ''UnicodeEncodeError'')"
    using sample_console_lines(1) compilation_total [where console = ascii_console
        and describe = exn_name and query = "[]" and web = silent_web
        and py_title = keep_title and py_str = list_text and now = "[]"
        and sources = "[]" and e = "Exn ''UnicodeEncodeError''"]
    by blast
  moreover have "get_comprehensive_answer closing_console exn_name silent_web keep_title
      list_text [] [] = Inl (Exn ''BrokenPipeError'')"
    using sample_console_lines(2,3) compilation_total [where console = closing_console
        and describe = exn_name and query = "[]" and web = silent_web
        and py_title = keep_title and py_str = list_text and now = "[]"
        and sources = "[]" and e = "Exn ''BrokenPipeError''"]
    by blast
  moreover have "get_comprehensive_answer late_console exn_name unreachable_web keep_title
      list_text [] [] = Inl (Exn ''BrokenPipeError'')"
  proof -
    have "wikipedia_body unreachable_web [] = Inl (Exn ''ConnectionError'')"
      by (simp add: unreachable_web_def)
    then show ?thesis
      using sample_console_lines(4,5,6) compilation_total [where console = late_console
        and describe = exn_name and query = "[]" and web = unreachable_web
        and py_title = keep_title and py_str = list_text and now = "[]"
        and sources = "[]" and e = "Exn ''BrokenPipeError''"
        and failure = "Exn ''ConnectionError''"]
      by blast
  qed
  ultimately show ?thesis by simp
qed

lemma ascii_console_refuses:
  "ascii_console ([glyph_search] @ '' Researching: '' @ ''what is NPU'')
     = Inl (Exn ''UnicodeEncodeError'')"
  by code_simp

text \<open>
  On a console in ASCII the first progress line cannot be written, and the call for the
  query "what is NPU" ends in the exception instead of a text.
\<close>

theorem compilation_total_counterexample:
  "get_comprehensive_answer ascii_console exn_name silent_web keep_title list_text []
     ''what is NPU'' = Inl (Exn ''UnicodeEncodeError'')"
  using ascii_console_refuses
  by (simp add: get_comprehensive_answer_def bind_exn_def)

section \<open>Providers absorb their failures\<close>








text \<open>A well-formed answer comes through both providers.\<close>

lemma search_wikipedia_delivers:
  "search_wikipedia
     (\<lambda>r. Inr \<lparr>status_code = 200,
                json_body = Inr (JObj [(''extract'', JStr ''A neural processing unit.'')])\<rparr>)
     ''what is NPU''
   = Some (JStr ''A neural processing unit.'')"
  by code_simp

lemma search_duckduckgo_delivers:
  "search_duckduckgo (\<lambda>q. Inr [''menu'', ''  A neural processing unit speeds up AI.  ''])
     ''what is NPU''
   = Some ''A neural processing unit speeds up AI.''"
  by code_simp


end
